theory Spec2Isabelle
  imports Complex_Main "HOL-Library.Char_ord" "HOL-Library.List_Lexorder"
begin

section \<open>Python values, errors and the world a call runs in\<close>

text \<open>
  The helpers of \<^verbatim>\<open>regression.py\<close> and \<^verbatim>\<open>data_visualisation.py\<close> receive references
  to objects owned by the caller (fitted models, DataFrames), print to standard output, show
  charts and return a value. A call is therefore a function from the world before the call to
  an outcome and the world after it. The world holds the DataFrames and models the caller
  can reach, each under its reference (its index), the lines printed and the charts shown.
  A frame that pandas returns fresh from an aggregation is a local value of the function;
  \<^verbatim>\<open>df.copy()\<close> allocates its copy in the world, so that a later write has an address.
  An exception is the outcome \<open>Inl e\<close>; the repository has no \<^verbatim>\<open>try\<close> statement, so an
  exception ends the call where it is raised.

  The whole numbers of an \<^verbatim>\<open>int64\<close> column are integers, and their sum wraps around at
  \<open>2^63\<close> as the machine addition of pandas does. The other numbers are real numbers:
  rounding of floating point is not modelled. Division follows Python's numbers, where a
  zero divisor raises \<^verbatim>\<open>ZeroDivisionError\<close>. An error is its class, with the attribute or
  the labels it names; the text of its message is not modelled.
\<close>

datatype error =
    AttributeError string
  | KeyError "string list"
  | ZeroDivisionError
  | ValueError
  | TypeError

text \<open>A DataFrame is its named columns in order; a column is a list of strings, of whole
  numbers (\<^verbatim>\<open>int64\<close>) or of other numbers (\<^verbatim>\<open>float64\<close>), and holds one kind only. Missing
  values are not part of the model.\<close>

datatype cell = Str string | Int64 int | Num real

definition in_int64 :: "int \<Rightarrow> bool" where
  "in_int64 n = (- (2 ^ 63) \<le> n \<and> n < 2 ^ 63)"

definition wrap64 :: "int \<Rightarrow> int" where
  "wrap64 n = (n + 2 ^ 63) mod 2 ^ 64 - 2 ^ 63"

type_synonym 'c frame = "(string \<times> 'c) list"

type_synonym dataframe = "cell list frame"

text \<open>Group keys are sorted: numbers by value, strings by code point. Between the kinds a
  whole number sorts before another number and a number before a string (a column holds one
  kind, so these rules never decide an order).\<close>

instantiation cell :: linorder
begin

fun less_eq_cell :: "cell \<Rightarrow> cell \<Rightarrow> bool" where
  "less_eq_cell (Int64 a) (Int64 b) = (a \<le> b)"
| "less_eq_cell (Int64 a) (Num b) = True"
| "less_eq_cell (Int64 a) (Str t) = True"
| "less_eq_cell (Num a) (Int64 b) = False"
| "less_eq_cell (Num a) (Num b) = (a \<le> b)"
| "less_eq_cell (Num a) (Str t) = True"
| "less_eq_cell (Str s) (Int64 b) = False"
| "less_eq_cell (Str s) (Num b) = False"
| "less_eq_cell (Str s) (Str t) = (s \<le> t)"

definition less_cell :: "cell \<Rightarrow> cell \<Rightarrow> bool" where
  "less_cell x y = (x \<le> y \<and> \<not> y \<le> x)"

instance
proof
  fix x y z :: cell
  show "(x < y) = (x \<le> y \<and> \<not> y \<le> x)" by (simp add: less_cell_def)
  show "x \<le> x" by (cases x) simp_all
  show "x \<le> y \<Longrightarrow> y \<le> z \<Longrightarrow> x \<le> z" by (cases x; cases y; cases z) auto
  show "x \<le> y \<Longrightarrow> y \<le> x \<Longrightarrow> x = y" by (cases x; cases y) auto
  show "x \<le> y \<or> y \<le> x" by (cases x; cases y) auto
qed

end

text \<open>
  What a plotting call receives. A column converted by \<^verbatim>\<open>pd.Categorical\<close> holds its ordered
  categories and, for every row, its category or nothing (NaN). Drawing itself (matplotlib,
  seaborn) is not modelled: \<^verbatim>\<open>plt.show()\<close> records the chart and its data.
\<close>

datatype plot_column = Plain "cell list" | Categorical "string list" "string option list"

datatype chart =
    Barplot (bar_data: "plot_column frame") (bar_x: string) (bar_y: string)
      (bar_colors: "string list") (bar_title: string) (bar_xlabel: string) (bar_ylabel: string)
  | Pie (pie_values: "cell list") (pie_labels: "cell list") (pie_colors: "string list option")
      (pie_title: string)
  | Stacked_Bars (stack_data: dataframe) (stack_colors: "string list") (stack_title: string)
      (stack_xlabel: string) (stack_ylabel: string)

text \<open>A fitted model is the attributes it exposes. An attribute holds a number; in a
  malformed model it may hold a string instead.\<close>

datatype pyattr = Number real | Text string

type_synonym fitted_model = "string \<Rightarrow> pyattr option"

datatype pyvalue = PyNone | PyDict "(string \<times> real) list" | PyFrame dataframe

text \<open>One constructor per \<^verbatim>\<open>print\<close> call of the source, holding the values its f-string
  interpolates (the rendering of a number to two or five decimals is presentation; that a
  string cannot be rendered so is \<open>format_f\<close> below).\<close>

datatype line =
    Aic_Line string real
  | Preferred_Line string
  | Same_Aic_Line
  | Lrt_Header string string
  | Lr_Statistic_Line real
  | Degrees_Line real
  | P_Value_Line real
  | Improves_Line string string
  | Sufficient_Line string
  | Rows_Line nat
  | Columns_Line nat
  | Names_Header
  | Names_Line "string list"
  | Dtypes_Header
  | Dtypes_Line "(string \<times> string) list"

record world =
  frames :: "dataframe list"
  models :: "fitted_model list"
  stdout :: "line list"
  shown :: "chart list"

type_synonym 'a prog = "world \<Rightarrow> (error + 'a) \<times> world"

definition ret :: "'a \<Rightarrow> 'a prog" where
  "ret x = (\<lambda>w. (Inr x, w))"

definition then_do :: "'a prog \<Rightarrow> ('a \<Rightarrow> 'b prog) \<Rightarrow> 'b prog" where
  "then_do p f = (\<lambda>w. case p w of (Inl e, w') \<Rightarrow> (Inl e, w') | (Inr x, w') \<Rightarrow> f x w')"

definition lift :: "error + 'a \<Rightarrow> 'a prog" where
  "lift r = (\<lambda>w. (r, w))"

definition print :: "line \<Rightarrow> unit prog" where
  "print l = (\<lambda>w. (Inr (), w\<lparr>stdout := stdout w @ [l]\<rparr>))"

text \<open>\<^verbatim>\<open>model.name\<close>: a reference that holds no model stands for \<^verbatim>\<open>None\<close>, which has no
  attribute either.\<close>

definition getattr :: "nat \<Rightarrow> string \<Rightarrow> pyattr prog" where
  "getattr m name = (\<lambda>w.
     if m < length (models w) then
       (case (models w ! m) name of
          Some v \<Rightarrow> (Inr v, w)
        | None \<Rightarrow> (Inl (AttributeError name), w))
     else (Inl (AttributeError name), w))"

text \<open>Operations that fail inside one expression: the first failure is the outcome.\<close>

definition and_then :: "error + 'a \<Rightarrow> ('a \<Rightarrow> error + 'b) \<Rightarrow> error + 'b" where
  "and_then r f = (case r of Inl e \<Rightarrow> Inl e | Inr x \<Rightarrow> f x)"

fun collect :: "('a \<Rightarrow> error + 'b) \<Rightarrow> 'a list \<Rightarrow> error + 'b list" where
  "collect f [] = Inr []"
| "collect f (x # xs) = and_then (f x) (\<lambda>y. and_then (collect f xs) (\<lambda>ys. Inr (y # ys)))"

text \<open>
  Python's operators on the value of an attribute. An arithmetic operator with a string
  operand raises \<^verbatim>\<open>TypeError\<close>; \<^verbatim>\<open>/\<close> with a zero divisor raises \<^verbatim>\<open>ZeroDivisionError\<close>;
  the format specification \<^verbatim>\<open>:.2f\<close> applied to a string raises \<^verbatim>\<open>ValueError\<close>; \<^verbatim>\<open><\<close>
  compares two numbers or two strings and raises \<^verbatim>\<open>TypeError\<close> on a number and a string.
\<close>

definition py_div :: "real \<Rightarrow> real \<Rightarrow> error + real" where
  "py_div a b = (if b = 0 then Inl ZeroDivisionError else Inr (a / b))"

definition number :: "pyattr \<Rightarrow> error + real" where
  "number v = (case v of Number x \<Rightarrow> Inr x | Text s \<Rightarrow> Inl TypeError)"

definition py_sub :: "pyattr \<Rightarrow> pyattr \<Rightarrow> error + real" where
  "py_sub a b = and_then (number a) (\<lambda>x. and_then (number b) (\<lambda>y. Inr (x - y)))"

definition py_add :: "pyattr \<Rightarrow> pyattr \<Rightarrow> error + real" where
  "py_add a b = and_then (number a) (\<lambda>x. and_then (number b) (\<lambda>y. Inr (x + y)))"

definition py_truediv :: "pyattr \<Rightarrow> pyattr \<Rightarrow> error + real" where
  "py_truediv a b = and_then (number a) (\<lambda>x. and_then (number b) (\<lambda>y. py_div x y))"

definition py_less :: "pyattr \<Rightarrow> pyattr \<Rightarrow> error + bool" where
  "py_less a b = (case (a, b) of
       (Number x, Number y) \<Rightarrow> Inr (x < y)
     | (Text s, Text t) \<Rightarrow> Inr (s < t)
     | _ \<Rightarrow> Inl TypeError)"

definition format_f :: "pyattr \<Rightarrow> error + real" where
  "format_f v = (case v of Number x \<Rightarrow> Inr x | Text s \<Rightarrow> Inl ValueError)"

section \<open>The pandas operations the helpers call\<close>

text \<open>The frame a reference holds, for \<^verbatim>\<open>df.attr\<close> or \<^verbatim>\<open>df[...]\<close>. A reference that holds no
  frame stands for \<^verbatim>\<open>None\<close>, on which an attribute access raises \<^verbatim>\<open>AttributeError\<close> and a
  subscript raises \<^verbatim>\<open>TypeError\<close>: the second argument is that error.\<close>

definition frame_of :: "nat \<Rightarrow> error \<Rightarrow> dataframe prog" where
  "frame_of df on_none = (\<lambda>w.
     if df < length (frames w) then (Inr (frames w ! df), w)
     else (Inl on_none, w))"

definition copy :: "nat \<Rightarrow> nat prog" where
  "copy df = then_do (frame_of df (AttributeError ''copy'')) (\<lambda>fr w.
     (Inr (length (frames w)), w\<lparr>frames := frames w @ [fr]\<rparr>))"

definition store :: "nat \<Rightarrow> dataframe \<Rightarrow> unit prog" where
  "store df fr = (\<lambda>w. (Inr (), w\<lparr>frames := (frames w)[df := fr]\<rparr>))"

definition plt_show :: "chart \<Rightarrow> unit prog" where
  "plt_show c = (\<lambda>w. (Inr (), w\<lparr>shown := shown w @ [c]\<rparr>))"

text \<open>\<^verbatim>\<open>df[c]\<close>, \<^verbatim>\<open>df[[c1, c2]]\<close>, \<^verbatim>\<open>df[c] = col\<close> and \<^verbatim>\<open>df.rename(columns={old: new})\<close>.\<close>

definition getitem :: "'c frame \<Rightarrow> string \<Rightarrow> error + 'c" where
  "getitem df c = (case map_of df c of None \<Rightarrow> Inl (KeyError [c]) | Some col \<Rightarrow> Inr col)"

definition getitems :: "'c frame \<Rightarrow> string list \<Rightarrow> error + 'c frame" where
  "getitems df cs =
     (if set cs \<subseteq> set (map fst df) then Inr (map (\<lambda>c. (c, the (map_of df c))) cs)
      else Inl (KeyError (filter (\<lambda>c. c \<notin> set (map fst df)) cs)))"

definition setitem :: "'c frame \<Rightarrow> string \<Rightarrow> 'c \<Rightarrow> 'c frame" where
  "setitem df c col =
     (if c \<in> set (map fst df) then map (\<lambda>(n, old). if n = c then (n, col) else (n, old)) df
      else df @ [(c, col)])"

text \<open>
  \<^verbatim>\<open>df.loc[:, c] = col\<close> with a column of strings, as the source assigns: a new name adds the
  column; an existing column of strings takes the values; an existing column of numbers
  refuses them with \<^verbatim>\<open>TypeError\<close>.
\<close>

fun is_string :: "cell \<Rightarrow> bool" where
  "is_string (Str s) = True"
| "is_string (Int64 a) = False"
| "is_string (Num a) = False"

definition loc_setitem :: "dataframe \<Rightarrow> string \<Rightarrow> cell list \<Rightarrow> error + dataframe" where
  "loc_setitem df c col =
     (case map_of df c of
        None \<Rightarrow> Inr (df @ [(c, col)])
      | Some old \<Rightarrow> if list_all is_string old then Inr (setitem df c col) else Inl TypeError)"

definition rename :: "'c frame \<Rightarrow> string \<Rightarrow> string \<Rightarrow> 'c frame" where
  "rename df old new = map (\<lambda>(n, col). (if n = old then new else n, col)) df"

definition plain :: "dataframe \<Rightarrow> plot_column frame" where
  "plain df = map (\<lambda>(n, col). (n, Plain col)) df"

text \<open>
  \<^verbatim>\<open>df.groupby(by, as_index=False)[value_col].agg()\<close>: a missing key column raises first, then
  a missing value column; there is one row per distinct key, in sorted key order, holding the
  key and the aggregate of the value column over the rows with that key. Summing whole
  numbers adds them in 64 bits, summing other numbers adds them and summing strings
  concatenates them; the mean needs numbers and is never a whole number.
\<close>

fun row_keys :: "cell list list \<Rightarrow> cell list list" where
  "row_keys [] = []"
| "row_keys [c] = map (\<lambda>x. [x]) c"
| "row_keys (c # cs) = map2 (#) c (row_keys cs)"

definition select_group :: "'k list \<Rightarrow> 'v list \<Rightarrow> 'k \<Rightarrow> 'v list" where
  "select_group ks vs k = map snd (filter (\<lambda>(k', v). k' = k) (zip ks vs))"

fun the_ints :: "cell list \<Rightarrow> error + int list" where
  "the_ints [] = Inr []"
| "the_ints (Int64 a # xs) = and_then (the_ints xs) (\<lambda>ns. Inr (a # ns))"
| "the_ints (Num a # xs) = Inl TypeError"
| "the_ints (Str s # xs) = Inl TypeError"

fun the_floats :: "cell list \<Rightarrow> error + real list" where
  "the_floats [] = Inr []"
| "the_floats (Num a # xs) = and_then (the_floats xs) (\<lambda>ys. Inr (a # ys))"
| "the_floats (Int64 a # xs) = Inl TypeError"
| "the_floats (Str s # xs) = Inl TypeError"

fun the_strings :: "cell list \<Rightarrow> error + string list" where
  "the_strings [] = Inr []"
| "the_strings (Str s # xs) = and_then (the_strings xs) (\<lambda>ts. Inr (s # ts))"
| "the_strings (Int64 a # xs) = Inl TypeError"
| "the_strings (Num a # xs) = Inl TypeError"

fun sum_cells :: "cell list \<Rightarrow> error + cell" where
  "sum_cells [] = Inr (Int64 0)"
| "sum_cells (Int64 a # xs) = and_then (the_ints xs) (\<lambda>ns. Inr (Int64 (wrap64 (a + sum_list ns))))"
| "sum_cells (Num a # xs) = and_then (the_floats xs) (\<lambda>ys. Inr (Num (a + sum_list ys)))"
| "sum_cells (Str s # xs) = and_then (the_strings xs) (\<lambda>ts. Inr (Str (s @ concat ts)))"

fun the_numbers :: "cell list \<Rightarrow> error + real list" where
  "the_numbers [] = Inr []"
| "the_numbers (Int64 a # xs) = and_then (the_numbers xs) (\<lambda>ys. Inr (real_of_int a # ys))"
| "the_numbers (Num a # xs) = and_then (the_numbers xs) (\<lambda>ys. Inr (a # ys))"
| "the_numbers (Str s # xs) = Inl TypeError"

definition mean_cells :: "cell list \<Rightarrow> error + cell" where
  "mean_cells xs = and_then (the_numbers xs) (\<lambda>ys.
     and_then (py_div (sum_list ys) (real (length ys))) (\<lambda>m. Inr (Num m)))"

definition groupby_agg ::
  "(cell list \<Rightarrow> error + cell) \<Rightarrow> dataframe \<Rightarrow> string list \<Rightarrow> string \<Rightarrow> error + dataframe" where
  "groupby_agg agg df by value_col =
     and_then (collect (getitem df) by) (\<lambda>key_cols.
     and_then (getitem df value_col) (\<lambda>vals.
     let ks = row_keys key_cols;
         groups = sort (remdups ks) in
     and_then (collect (\<lambda>k. agg (select_group ks vals k)) groups) (\<lambda>aggregated.
     Inr (zip by (map (\<lambda>j. map (\<lambda>k. k ! j) groups) [0..<length by]) @
          [(value_col, aggregated)]))))"

text \<open>\<^verbatim>\<open>df.groupby(by, as_index=False)[value_cols].sum()\<close> with a list of value columns.\<close>

definition groupby_sums :: "dataframe \<Rightarrow> string \<Rightarrow> string list \<Rightarrow> error + dataframe" where
  "groupby_sums df by value_cols =
     and_then (getitem df by) (\<lambda>keys.
     and_then (getitems df value_cols) (\<lambda>cols.
     let ks = row_keys [keys];
         groups = sort (remdups ks) in
     and_then (collect (\<lambda>(n, vals).
         and_then (collect (\<lambda>k. sum_cells (select_group ks vals k)) groups) (\<lambda>totals.
         Inr (n, totals))) cols) (\<lambda>summed.
     Inr ((by, map (\<lambda>k. k ! 0) groups) # summed))))"

text \<open>
  \<^verbatim>\<open>pd.Categorical(values, categories=..., ordered=True)\<close> refuses repeated categories; a
  value that is not a category becomes NaN. \<^verbatim>\<open>sort_values\<close> on such a column orders the rows
  by the position of their category and puts the NaN rows last, in the order they had.
\<close>

definition pd_Categorical :: "cell list \<Rightarrow> string list \<Rightarrow> error + plot_column" where
  "pd_Categorical vals categories =
     (if distinct categories then
        Inr (Categorical categories
          (map (\<lambda>v. case v of Str s \<Rightarrow> if s \<in> set categories then Some s else None
                        | Int64 a \<Rightarrow> None
                        | Num a \<Rightarrow> None) vals))
      else Inl ValueError)"

definition position :: "'a list \<Rightarrow> 'a \<Rightarrow> nat" where
  "position xs x = length (takeWhile (\<lambda>y. y \<noteq> x) xs)"

fun argsort :: "plot_column \<Rightarrow> nat list" where
  "argsort (Categorical categories vals) =
     (let rows = zip [0..<length vals] vals in
      map fst (sort_key snd (concat (map
        (\<lambda>(i, v). case v of None \<Rightarrow> [] | Some s \<Rightarrow> [(i, position categories s)]) rows))) @
      concat (map (\<lambda>(i, v). case v of None \<Rightarrow> [i] | Some s \<Rightarrow> []) rows))"
| "argsort (Plain vals) = map fst (sort_key snd (zip [0..<length vals] vals))"

fun take_rows :: "nat list \<Rightarrow> plot_column \<Rightarrow> plot_column" where
  "take_rows is (Plain vals) = Plain (map ((!) vals) is)"
| "take_rows is (Categorical categories vals) = Categorical categories (map ((!) vals) is)"

definition sort_values :: "plot_column frame \<Rightarrow> string \<Rightarrow> error + plot_column frame" where
  "sort_values df by =
     and_then (getitem df by) (\<lambda>col.
     Inr (map (\<lambda>(n, c). (n, take_rows (argsort col) c)) df))"

text \<open>
  The remaining pandas calls of \<^verbatim>\<open>data_visualisation.py\<close> act on frames the function has
  just built and are parameters: a descending \<^verbatim>\<open>sort_values\<close>, the division of a column by a
  number or by a column, \<^verbatim>\<open>melt\<close>, \<^verbatim>\<open>groupby(...).transform("sum")\<close>, \<^verbatim>\<open>replace\<close> and
  \<^verbatim>\<open>pivot\<close>.
\<close>

record pandas =
  sort_values_desc :: "dataframe \<Rightarrow> string \<Rightarrow> error + dataframe"
  series_div_scalar :: "cell list \<Rightarrow> cell \<Rightarrow> error + cell list"
  series_div :: "cell list \<Rightarrow> cell list \<Rightarrow> error + cell list"
  melt :: "dataframe \<Rightarrow> string list \<Rightarrow> string list \<Rightarrow> string \<Rightarrow> string \<Rightarrow> error + dataframe"
  transform_sum :: "dataframe \<Rightarrow> string \<Rightarrow> string \<Rightarrow> error + cell list"
  series_replace :: "cell list \<Rightarrow> (string \<times> string) list \<Rightarrow> error + cell list"
  pivot :: "dataframe \<Rightarrow> string \<Rightarrow> string \<Rightarrow> string \<Rightarrow> error + dataframe"

section \<open>regression.py\<close>

definition compare_models_aic :: "nat \<Rightarrow> nat \<Rightarrow> string \<Rightarrow> string \<Rightarrow> pyvalue prog" where
  "compare_models_aic model1 model2 name1 name2 =
     then_do (getattr model1 ''aic'') (\<lambda>aic1.
     then_do (getattr model2 ''aic'') (\<lambda>aic2.
     then_do (lift (format_f aic1)) (\<lambda>shown1.
     then_do (print (Aic_Line name1 shown1)) (\<lambda>_.
     then_do (lift (format_f aic2)) (\<lambda>shown2.
     then_do (print (Aic_Line name2 shown2)) (\<lambda>_.
     then_do (lift (py_less aic1 aic2)) (\<lambda>lower1.
     then_do (if lower1 then print (Preferred_Line name1)
              else then_do (lift (py_less aic2 aic1)) (\<lambda>lower2.
                   if lower2 then print (Preferred_Line name2)
                   else print Same_Aic_Line)) (\<lambda>_.
     ret PyNone))))))))"

text \<open>\<^verbatim>\<open>stats.chi2.sf\<close> belongs to scipy; it is the parameter \<open>chi2_sf\<close>.\<close>

definition likelihood_ratio_test ::
  "(real \<Rightarrow> real \<Rightarrow> real) \<Rightarrow> nat \<Rightarrow> nat \<Rightarrow> string \<Rightarrow> string \<Rightarrow> pyvalue prog" where
  "likelihood_ratio_test chi2_sf model1 model2 name1 name2 =
     then_do (getattr model2 ''llf'') (\<lambda>llf2.
     then_do (getattr model1 ''llf'') (\<lambda>llf1.
     then_do (lift (py_sub llf2 llf1)) (\<lambda>difference.
     let lr_stat = 2 * difference in
     then_do (getattr model2 ''df_model'') (\<lambda>df2.
     then_do (lift (py_add df2 (Number 1))) (\<lambda>df2_plus_1.
     then_do (getattr model1 ''df_model'') (\<lambda>df1.
     then_do (lift (py_sub (Number df2_plus_1) df1)) (\<lambda>df_diff.
     let p_value = chi2_sf lr_stat df_diff in
     then_do (print (Lrt_Header name1 name2)) (\<lambda>_.
     then_do (print (Lr_Statistic_Line lr_stat)) (\<lambda>_.
     then_do (print (Degrees_Line df_diff)) (\<lambda>_.
     then_do (print (P_Value_Line p_value)) (\<lambda>_.
     then_do (if p_value < 0.05 then print (Improves_Line name2 name1)
              else print (Sufficient_Line name1)) (\<lambda>_.
     ret PyNone))))))))))))"

definition compute_pseudo_r2 :: "nat \<Rightarrow> string \<Rightarrow> pyvalue prog" where
  "compute_pseudo_r2 model model_name =
     then_do (getattr model ''llf'') (\<lambda>llh.
     then_do (getattr model ''null_deviance'') (\<lambda>null_deviance.
     then_do (lift (py_truediv null_deviance (Number (- 2)))) (\<lambda>llh_null.
     then_do (lift (py_truediv (Number llh_null) llh)) (\<lambda>q.
     let r2_ml = 1 - q in
     then_do (getattr model ''nobs'') (\<lambda>nobs.
     then_do (lift (py_truediv (Number llh_null) nobs)) (\<lambda>q'.
     then_do (lift (py_truediv (Number r2_ml) (Number (1 - q')))) (\<lambda>r2_cu.
     ret (PyFrame
       [(''Model'', [Str model_name, Str model_name]),
        (''Metric'', [Str ''r2ML'', Str ''r2CU'']),
        (''Value'', [Num r2_ml, Num r2_cu])]))))))))"

text \<open>\<^verbatim>\<open>sm.add_constant\<close> and \<^verbatim>\<open>variance_inflation_factor\<close> belong to statsmodels; they are
  parameters, the second receiving the columns of \<^verbatim>\<open>X.values\<close> and the column index.\<close>

definition compute_vif ::
  "(dataframe \<Rightarrow> error + dataframe) \<Rightarrow> (cell list list \<Rightarrow> nat \<Rightarrow> error + real) \<Rightarrow>
   nat \<Rightarrow> string list \<Rightarrow> bool \<Rightarrow> pyvalue prog" where
  "compute_vif sm_add_constant variance_inflation_factor df features add_constant =
     then_do (frame_of df TypeError) (\<lambda>fr.
     then_do (lift (getitems fr features)) (\<lambda>X.
     then_do (if add_constant then lift (sm_add_constant X) else ret X) (\<lambda>X.
     then_do (lift (collect (\<lambda>i. variance_inflation_factor (map snd X) i) [0..<length X]))
       (\<lambda>vifs.
     ret (PyFrame [(''Variable'', map (\<lambda>(n, col). Str n) X), (''VIF'', map Num vifs)])))))"

section \<open>data\_exploratory.py\<close>

text \<open>The name pandas gives to the type of a column is the parameter \<open>dtype\<close>. Each
  \<^verbatim>\<open>print\<close> call reads the frame when it is reached.\<close>

definition dataset_info :: "(cell list \<Rightarrow> string) \<Rightarrow> nat \<Rightarrow> pyvalue prog" where
  "dataset_info dtype df =
     then_do (frame_of df (AttributeError ''shape'')) (\<lambda>fr.
     then_do (print (Rows_Line (case fr of [] \<Rightarrow> 0 | (n, col) # _ \<Rightarrow> length col))) (\<lambda>_.
     then_do (frame_of df (AttributeError ''shape'')) (\<lambda>fr.
     then_do (print (Columns_Line (length fr))) (\<lambda>_.
     then_do (print Names_Header) (\<lambda>_.
     then_do (frame_of df (AttributeError ''columns'')) (\<lambda>fr.
     then_do (print (Names_Line (map fst fr))) (\<lambda>_.
     then_do (print Dtypes_Header) (\<lambda>_.
     then_do (frame_of df (AttributeError ''dtypes'')) (\<lambda>fr.
     then_do (print (Dtypes_Line (map (\<lambda>(n, col). (n, dtype col)) fr))) (\<lambda>_.
     ret PyNone))))))))))"

section \<open>data\_visualisation.py\<close>

text \<open>Every optional parameter of the source is an argument here; \<^verbatim>\<open>None\<close> for a list or a
  dictionary is \<open>None\<close>, and the function puts its default in place as the source does.\<close>

definition plot_accidents_by_day ::
  "nat \<Rightarrow> string \<Rightarrow> string \<Rightarrow> string \<Rightarrow> string \<Rightarrow> string \<Rightarrow> string list option \<Rightarrow>
   pyvalue prog" where
  "plot_accidents_by_day df day_col value_col title xlabel ylabel day_order =
     (let day_order = (case day_order of
            None \<Rightarrow> [''Lundi'', ''Mardi'', ''Mercredi'', ''Jeudi'', ''Vendredi'', ''Samedi'',
                     ''Dimanche'']
          | Some order \<Rightarrow> order) in
      then_do (frame_of df (AttributeError ''groupby'')) (\<lambda>fr.
      then_do (lift (groupby_agg sum_cells fr [day_col] value_col)) (\<lambda>day_counts.
      then_do (lift (getitem day_counts day_col)) (\<lambda>days.
      then_do (lift (pd_Categorical days day_order)) (\<lambda>categorical.
      let day_counts = setitem (plain day_counts) day_col categorical in
      then_do (lift (sort_values day_counts day_col)) (\<lambda>day_counts.
      then_do (plt_show
        (Barplot day_counts day_col value_col [''steelblue''] title xlabel ylabel)) (\<lambda>_.
      ret PyNone)))))))"

text \<open>The function applied to every day:
  \<^verbatim>\<open>lambda x: "Weekend" if x in weekend_days else "Weekday"\<close>.\<close>

definition weekend_or_weekday :: "string list \<Rightarrow> cell \<Rightarrow> cell" where
  "weekend_or_weekday weekend_days x =
     Str (if x \<in> set (map Str weekend_days) then ''Weekend'' else ''Weekday'')"

definition plot_avg_accidents_weekday_vs_weekend ::
  "nat \<Rightarrow> string \<Rightarrow> string \<Rightarrow> string \<Rightarrow> string list option \<Rightarrow> string list option \<Rightarrow>
   string \<Rightarrow> string \<Rightarrow> string \<Rightarrow> pyvalue prog" where
  "plot_avg_accidents_weekday_vs_weekend df day_col value_col binary_col weekend_days colors
       title xlabel ylabel =
     (let weekend_days = (case weekend_days of
            None \<Rightarrow> [''Samedi'', ''Dimanche''] | Some days \<Rightarrow> days);
          colors = (case colors of None \<Rightarrow> [''#E0897E'', ''#63B7C3''] | Some cs \<Rightarrow> cs) in
      then_do (copy df) (\<lambda>df.
      then_do (frame_of df TypeError) (\<lambda>fr.
      then_do (lift (getitem fr day_col)) (\<lambda>days.
      then_do (lift (loc_setitem fr binary_col (map (weekend_or_weekday weekend_days) days)))
        (\<lambda>fr.
      then_do (store df fr) (\<lambda>_.
      then_do (frame_of df (AttributeError ''groupby'')) (\<lambda>fr.
      then_do (lift (groupby_agg sum_cells fr [day_col, binary_col] value_col)) (\<lambda>day_grouped.
      then_do (lift (groupby_agg mean_cells day_grouped [binary_col] value_col))
        (\<lambda>avg_accidents.
      let avg_accidents = rename avg_accidents value_col ''Average_Accidents'' in
      then_do (plt_show
        (Barplot (plain avg_accidents) binary_col ''Average_Accidents'' colors title xlabel
           ylabel)) (\<lambda>_.
      ret PyNone))))))))))"

definition plot_accidents_by_road_type ::
  "pandas \<Rightarrow> nat \<Rightarrow> string \<Rightarrow> string \<Rightarrow> string \<Rightarrow> string \<Rightarrow> string \<Rightarrow> string \<Rightarrow>
   pyvalue prog" where
  "plot_accidents_by_road_type pd df road_col value_col title xlabel ylabel color =
     then_do (frame_of df (AttributeError ''groupby'')) (\<lambda>fr.
     then_do (lift (groupby_agg sum_cells fr [road_col] value_col)) (\<lambda>road_counts.
     then_do (lift (sort_values_desc pd road_counts value_col)) (\<lambda>road_counts.
     then_do (lift (getitem road_counts value_col)) (\<lambda>vals.
     then_do (lift (getitem road_counts value_col)) (\<lambda>vals'.
     then_do (lift (sum_cells vals')) (\<lambda>total.
     then_do (lift (series_div_scalar pd vals total)) (\<lambda>proportion.
     let road_counts = setitem road_counts ''Proportion'' proportion in
     then_do (plt_show
       (Barplot (plain road_counts) road_col value_col [color] title xlabel ylabel)) (\<lambda>_.
     ret PyNone))))))))"

definition plot_accidents_by_hour ::
  "nat \<Rightarrow> string \<Rightarrow> string \<Rightarrow> string \<Rightarrow> string \<Rightarrow> string \<Rightarrow> string \<Rightarrow> pyvalue prog" where
  "plot_accidents_by_hour df hour_col value_col title xlabel ylabel color =
     then_do (frame_of df (AttributeError ''groupby'')) (\<lambda>fr.
     then_do (lift (groupby_agg sum_cells fr [hour_col] value_col)) (\<lambda>hourly_accidents.
     then_do (plt_show
       (Barplot (plain hourly_accidents) hour_col value_col [color] title xlabel ylabel)) (\<lambda>_.
     ret PyNone)))"

definition plot_accidents_by_light_condition ::
  "pandas \<Rightarrow> nat \<Rightarrow> string \<Rightarrow> string \<Rightarrow> string \<Rightarrow> string list option \<Rightarrow> pyvalue prog" where
  "plot_accidents_by_light_condition pd df light_col value_col title colors =
     then_do (frame_of df (AttributeError ''groupby'')) (\<lambda>fr.
     then_do (lift (groupby_agg sum_cells fr [light_col] value_col)) (\<lambda>light_counts.
     then_do (lift (getitem light_counts value_col)) (\<lambda>vals.
     then_do (lift (getitem light_counts value_col)) (\<lambda>vals'.
     then_do (lift (sum_cells vals')) (\<lambda>total.
     then_do (lift (series_div_scalar pd vals total)) (\<lambda>proportion.
     let light_counts = setitem light_counts ''Proportion'' proportion in
     then_do (lift (getitem light_counts value_col)) (\<lambda>wedges.
     then_do (lift (getitem light_counts light_col)) (\<lambda>labels.
     then_do (plt_show (Pie wedges labels colors title)) (\<lambda>_.
     ret PyNone)))))))))"

definition plot_accident_severity_by_light_condition ::
  "pandas \<Rightarrow> nat \<Rightarrow> string \<Rightarrow> string list option \<Rightarrow> (string \<times> string) list option \<Rightarrow>
   string list option \<Rightarrow> string \<Rightarrow> string \<Rightarrow> string \<Rightarrow> pyvalue prog" where
  "plot_accident_severity_by_light_condition pd df light_col severity_cols
       accident_type_mapping colors title xlabel ylabel =
     (let severity_cols = (case severity_cols of
            None \<Rightarrow> [''MS_ACCT_WITH_DEAD'', ''MS_ACCT_WITH_MORY_INJ'',
                     ''MS_ACCT_WITH_SERLY_INJ'', ''MS_ACCT_WITH_SLY_INJ'']
          | Some cols \<Rightarrow> cols);
          accident_type_mapping = (case accident_type_mapping of
            None \<Rightarrow> [(''MS_ACCT_WITH_DEAD'', ''Fatal accidents''),
                     (''MS_ACCT_WITH_MORY_INJ'', ''Accidents with fatal injuries (30 days)''),
                     (''MS_ACCT_WITH_SERLY_INJ'', ''Accidents with serious injuries''),
                     (''MS_ACCT_WITH_SLY_INJ'', ''Accidents with minor injury'')]
          | Some mapping \<Rightarrow> mapping);
          colors = (case colors of
            None \<Rightarrow> [''#55B4AE'', ''#94A653'', ''#E68363'', ''#C78FF0''] | Some cs \<Rightarrow> cs) in
      then_do (frame_of df (AttributeError ''groupby'')) (\<lambda>fr.
      then_do (lift (groupby_sums fr light_col severity_cols)) (\<lambda>severity_light.
      then_do (lift (melt pd severity_light [light_col] severity_cols ''Accident_Type''
          ''Count'')) (\<lambda>severity_light.
      then_do (lift (transform_sum pd severity_light light_col ''Count'')) (\<lambda>totals.
      let severity_light = setitem severity_light ''Total_Accidents'' totals in
      then_do (lift (getitem severity_light ''Count'')) (\<lambda>counts.
      then_do (lift (getitem severity_light ''Total_Accidents'')) (\<lambda>totals.
      then_do (lift (series_div pd counts totals)) (\<lambda>proportion.
      let severity_light = setitem severity_light ''Proportion'' proportion in
      then_do (lift (getitem severity_light ''Accident_Type'')) (\<lambda>types.
      then_do (lift (series_replace pd types accident_type_mapping)) (\<lambda>types.
      let severity_light = setitem severity_light ''Accident_Type'' types in
      then_do (lift (pivot pd severity_light light_col ''Accident_Type'' ''Proportion''))
        (\<lambda>severity_pivot.
      then_do (plt_show (Stacked_Bars severity_pivot colors title xlabel ylabel)) (\<lambda>_.
      ret PyNone))))))))))))"

section \<open>Properties stated about a call\<close>

text \<open>The objects the caller could reach before a call are the same after it.\<close>

definition untouched :: "world \<Rightarrow> world \<Rightarrow> bool" where
  "untouched w w' = (take (length (frames w)) (frames w') = frames w \<and> models w' = models w)"

text \<open>A program that writes to no frame and no model.\<close>

definition reads_only :: "'a prog \<Rightarrow> bool" where
  "reads_only p = (\<forall>w. frames (snd (p w)) = frames w \<and> models (snd (p w)) = models w)"

text \<open>What a reference holds (nothing stands for \<^verbatim>\<open>None\<close>), what an attribute of a model
  holds (nothing when the model or the attribute is absent), the charts a call has added,
  and two runs of one program that end alike and show the same charts.\<close>

definition frame_at :: "world \<Rightarrow> nat \<Rightarrow> dataframe option" where
  "frame_at w df = (if df < length (frames w) then Some (frames w ! df) else None)"


definition new_charts :: "world \<Rightarrow> world \<Rightarrow> chart list" where
  "new_charts w w' = drop (length (shown w)) (shown w')"

definition same_run :: "'a prog \<Rightarrow> world \<Rightarrow> world \<Rightarrow> bool" where
  "same_run p w w' =
     (fst (p w) = fst (p w') \<and> new_charts w (snd (p w)) = new_charts w' (snd (p w')))"

text \<open>A program whose outcome and charts depend on the world only through the frame at
  \<open>df\<close>, and which leaves that frame as it is.\<close>

definition chart_fn :: "nat \<Rightarrow> 'a prog \<Rightarrow> bool" where
  "chart_fn df p = (\<forall>w w'. frame_at w df = frame_at w' df \<longrightarrow>
     fst (p w) = fst (p w') \<and> frame_at (snd (p w)) df = frame_at (snd (p w')) df \<and>
     (\<exists>cs. shown (snd (p w)) = shown w @ cs \<and> shown (snd (p w')) = shown w' @ cs))"





text \<open>A key function that keeps the order, and the category \<^verbatim>\<open>pd.Categorical\<close> gives a label.\<close>

definition embeds :: "('a::linorder \<Rightarrow> 'b::linorder) \<Rightarrow> bool" where
  "embeds h = (\<forall>a b. h a \<le> h b \<longleftrightarrow> a \<le> b)"

definition mark :: "string list \<Rightarrow> string \<Rightarrow> string option" where
  "mark order l = (if l \<in> set order then Some l else None)"

text \<open>
  The weekday/weekend aggregation in the spec's words: the label of a day; the value column
  summed per exact day and then averaged over the days that share the label; and, for
  contrast, the mean over all the rows of a label.
\<close>

definition day_kind :: "string list \<Rightarrow> string \<Rightarrow> string" where
  "day_kind weekend_days d = (if d \<in> set weekend_days then ''Weekend'' else ''Weekday'')"

definition two_stage_average ::
  "string list \<Rightarrow> real list \<Rightarrow> (string \<Rightarrow> string) \<Rightarrow> string \<Rightarrow> real" where
  "two_stage_average labels xs kind k =
     (let day_sums = map (\<lambda>d. sum_list (select_group labels xs d))
                       (filter (\<lambda>d. kind d = k) (remdups labels))
      in sum_list day_sums / real (length day_sums))"

definition flat_average ::
  "string list \<Rightarrow> real list \<Rightarrow> (string \<Rightarrow> string) \<Rightarrow> string \<Rightarrow> real" where
  "flat_average labels xs kind k =
     (let rows = map snd (filter (\<lambda>(d, x). kind d = k) (zip labels xs))
      in sum_list rows / real (length rows))"

text \<open>The worlds of the spec's examples.\<close>

definition aic_world :: world where
  "aic_world = \<lparr>frames = [],
     models = [Map.empty(''aic'' \<mapsto> Number 100), Map.empty(''aic'' \<mapsto> Number 95)],
     stdout = [], shown = []\<rparr>"

definition lrt_world :: world where
  "lrt_world = \<lparr>frames = [],
     models = [Map.empty(''llf'' \<mapsto> Number (- 500), ''df_model'' \<mapsto> Number 3),
               Map.empty(''llf'' \<mapsto> Number (- 490), ''df_model'' \<mapsto> Number 4)],
     stdout = [], shown = []\<rparr>"

definition zero_llf_world :: world where
  "zero_llf_world = \<lparr>frames = [],
     models = [Map.empty(''null_deviance'' \<mapsto> Number 200, ''llf'' \<mapsto> Number 0,
                         ''nobs'' \<mapsto> Number 50)],
     stdout = [], shown = []\<rparr>"

definition r2_world :: world where
  "r2_world = \<lparr>frames = [],
     models = [Map.empty(''null_deviance'' \<mapsto> Number 200, ''llf'' \<mapsto> Number (- 80),
                         ''nobs'' \<mapsto> Number 50)],
     stdout = [], shown = []\<rparr>"


text \<open>A week of rows: Samedi 4 + 6, Dimanche 20, and 5 for each of the five other days.\<close>

definition week_world :: world where
  "week_world = \<lparr>frames =
     [[(''Jour'', map Str [''Samedi'', ''Lundi'', ''Dimanche'', ''Mardi'', ''Samedi'',
                          ''Mercredi'', ''Lundi'', ''Jeudi'', ''Vendredi'', ''Mercredi'']),
       (''Accidents'', map Int64 [4, 2, 20, 5, 6, 1, 3, 5, 5, 4])]],
     models = [], stdout = [], shown = []\<rparr>"

text \<open>The same week in a world that holds more: another frame, a printed line, a chart.\<close>

definition busy_week_world :: world where
  "busy_week_world = week_world\<lparr>frames := frames week_world @ [[(''x'', [Int64 1])]],
     stdout := [Same_Aic_Line], shown := [Pie [Int64 1] [Str ''a''] None ''earlier'']\<rparr>"

section \<open>Properties of the model diagnostics\<close>

text \<open>
  C1. The docstring of \<open>compare_models_aic\<close> and the spec promise the dictionary
  \<open>{name1: aic1, name2: aic2}\<close>; the function body ends without a \<^verbatim>\<open>return\<close>, so for the
  models with AIC 100 and 95 the call prints its three lines and returns \<^verbatim>\<open>None\<close>.
\<close>

theorem compare_models_aic_returns_none:
  "compare_models_aic 0 1 ''Model 1'' ''Model 2'' aic_world =
     (Inr PyNone,
      aic_world\<lparr>stdout := [Aic_Line ''Model 1'' 100, Aic_Line ''Model 2'' 95,
                            Preferred_Line ''Model 2'']\<rparr>) \<and>
   fst (compare_models_aic 0 1 ''Model 1'' ''Model 2'' aic_world) \<noteq>
     Inr (PyDict [(''Model 1'', 100), (''Model 2'', 95)])"
  by (simp add: compare_models_aic_def aic_world_def then_do_def getattr_def print_def ret_def
      lift_def format_f_def py_less_def)

lemma likelihood_ratio_test_run:
  assumes "model1 < length (models w)" and "model2 < length (models w)"
    and "(models w ! model1) ''llf'' = Some (Number llf1)"
    and "(models w ! model2) ''llf'' = Some (Number llf2)"
    and "(models w ! model1) ''df_model'' = Some (Number df1)"
    and "(models w ! model2) ''df_model'' = Some (Number df2)"
  shows "likelihood_ratio_test chi2_sf model1 model2 name1 name2 w =
     (Inr PyNone,
      w\<lparr>stdout := stdout w @
         [Lrt_Header name1 name2,
          Lr_Statistic_Line (2 * (llf2 - llf1)),
          Degrees_Line ((df2 + 1) - df1),
          P_Value_Line (chi2_sf (2 * (llf2 - llf1)) ((df2 + 1) - df1)),
          (if chi2_sf (2 * (llf2 - llf1)) ((df2 + 1) - df1) < 0.05
           then Improves_Line name2 name1 else Sufficient_Line name1)]\<rparr>)"
  using assms
  by (simp add: likelihood_ratio_test_def then_do_def getattr_def print_def ret_def Let_def
      lift_def py_sub_def py_add_def number_def and_then_def)

text \<open>
  C2. The docstring of \<open>likelihood_ratio_test\<close> and the spec promise the record
  \<open>{LR_statistic, degrees_of_freedom, p_value}\<close>; the body ends with the last \<^verbatim>\<open>print\<close>,
  so for the spec's example models the call returns \<^verbatim>\<open>None\<close>, whatever scipy computes.
\<close>

theorem likelihood_ratio_test_returns_none:
  "fst (likelihood_ratio_test chi2_sf 0 1 ''Model 1'' ''Model 2'' lrt_world) = Inr PyNone \<and>
   fst (likelihood_ratio_test chi2_sf 0 1 ''Model 1'' ''Model 2'' lrt_world) \<noteq>
     Inr (PyDict [(''LR_statistic'', 20), (''degrees_of_freedom'', 2),
                  (''p_value'', chi2_sf 20 2)])"
  by (simp add: likelihood_ratio_test_def lrt_world_def then_do_def getattr_def print_def
      ret_def Let_def lift_def py_sub_def py_add_def number_def and_then_def)

text \<open>
  C3. With readable \<open>llf\<close> and \<open>df_model\<close> on both models, the values the function computes
  and reports are \<open>2 * (llf2 - llf1)\<close>, \<open>(df_model2 + 1) - df_model1\<close> and scipy's upper-tail
  chi-squared probability at these two numbers. For log-likelihoods -500 and -490 and
  \<open>df_model\<close> 3 and 4 they are 20 and 2.
\<close>

theorem likelihood_ratio_test_computes:
  assumes "model1 < length (models w)" and "model2 < length (models w)"
    and "(models w ! model1) ''llf'' = Some (Number llf1)"
    and "(models w ! model2) ''llf'' = Some (Number llf2)"
    and "(models w ! model1) ''df_model'' = Some (Number df1)"
    and "(models w ! model2) ''df_model'' = Some (Number df2)"
  shows "\<exists>conclusion.
     snd (likelihood_ratio_test chi2_sf model1 model2 name1 name2 w) =
       w\<lparr>stdout := stdout w @
         [Lrt_Header name1 name2,
          Lr_Statistic_Line (2 * (llf2 - llf1)),
          Degrees_Line ((df2 + 1) - df1),
          P_Value_Line (chi2_sf (2 * (llf2 - llf1)) ((df2 + 1) - df1)),
          conclusion]\<rparr>"
proof (rule exI)
  show "snd (likelihood_ratio_test chi2_sf model1 model2 name1 name2 w) =
       w\<lparr>stdout := stdout w @
         [Lrt_Header name1 name2,
          Lr_Statistic_Line (2 * (llf2 - llf1)),
          Degrees_Line ((df2 + 1) - df1),
          P_Value_Line (chi2_sf (2 * (llf2 - llf1)) ((df2 + 1) - df1)),
          (if chi2_sf (2 * (llf2 - llf1)) ((df2 + 1) - df1) < 0.05
           then Improves_Line name2 name1 else Sufficient_Line name1)]\<rparr>"
    by (simp only: likelihood_ratio_test_run [OF assms] snd_conv)
qed

theorem likelihood_ratio_test_computes_witness:
  "\<exists>conclusion.
     snd (likelihood_ratio_test (\<lambda>x k. exp (- x / 2)) 0 1 ''Model 1'' ''Model 2'' lrt_world) =
       lrt_world\<lparr>stdout :=
         [Lrt_Header ''Model 1'' ''Model 2'', Lr_Statistic_Line 20, Degrees_Line 2,
          P_Value_Line (exp (- 10)), conclusion]\<rparr>"
  using likelihood_ratio_test_computes [of 0 lrt_world 1 "- 500" "- 490" 3 4
      "\<lambda>x k. exp (- x / 2)" "''Model 1''" "''Model 2''"]
  by (simp add: lrt_world_def)

lemma compute_pseudo_r2_run:
  assumes "model < length (models w)"
    and "(models w ! model) ''llf'' = Some (Number llf)"
    and "(models w ! model) ''null_deviance'' = Some (Number null_deviance)"
    and "(models w ! model) ''nobs'' = Some (Number nobs)"
    and "llf \<noteq> 0" and "nobs \<noteq> 0" and "null_deviance / (- 2) \<noteq> nobs"
  shows "compute_pseudo_r2 model model_name w =
     (Inr (PyFrame
        [(''Model'', [Str model_name, Str model_name]),
         (''Metric'', [Str ''r2ML'', Str ''r2CU'']),
         (''Value'',
            [Num (1 - (null_deviance / (- 2)) / llf),
             Num ((1 - (null_deviance / (- 2)) / llf) /
                  (1 - (null_deviance / (- 2)) / nobs))])]),
      w)"
proof -
  have d: "1 - (null_deviance / (- 2)) / nobs \<noteq> 0"
    using assms(6,7) by (simp add: field_simps)
  show ?thesis
    using assms(1-5) assms(6) d
    by (simp add: compute_pseudo_r2_def then_do_def getattr_def lift_def py_div_def ret_def
        Let_def py_truediv_def number_def and_then_def)
qed

text \<open>
  C4, as stated, fails: a model whose \<open>llf\<close> is 0 has all three attributes readable, and the
  call raises \<^verbatim>\<open>ZeroDivisionError\<close> instead of returning a table.
\<close>

theorem compute_pseudo_r2_zero_llf:
  "(models zero_llf_world ! 0) ''llf'' = Some (Number 0) \<and>
   (models zero_llf_world ! 0) ''null_deviance'' = Some (Number 200) \<and>
   (models zero_llf_world ! 0) ''nobs'' = Some (Number 50) \<and>
   compute_pseudo_r2 0 ''Model'' zero_llf_world = (Inl ZeroDivisionError, zero_llf_world)"
  by (simp add: compute_pseudo_r2_def zero_llf_world_def then_do_def getattr_def lift_def
      py_div_def ret_def py_truediv_def number_def and_then_def)

text \<open>
  C4, amended. When \<open>llf\<close>, \<open>null_deviance\<close> and \<open>nobs\<close> are readable and no divisor is zero
  (\<open>llf \<noteq> 0\<close>, \<open>nobs \<noteq> 0\<close>, \<open>null_deviance / -2 \<noteq> nobs\<close>), \<open>compute_pseudo_r2\<close> returns the table
  with the rows \<open>r2ML = 1 - llh_null / llf\<close> and \<open>r2CU = r2ML / (1 - llh_null / nobs)\<close>, where
  \<open>llh_null = null_deviance / -2\<close>, both tagged with the model name, and changes nothing.
  For \<open>null_deviance = 200\<close>, \<open>llf = -80\<close>, \<open>nobs = 50\<close> the first value is -0.25.
\<close>

theorem compute_pseudo_r2_formula:
  assumes "model < length (models w)"
    and "(models w ! model) ''llf'' = Some (Number llf)"
    and "(models w ! model) ''null_deviance'' = Some (Number null_deviance)"
    and "(models w ! model) ''nobs'' = Some (Number nobs)"
    and "llf \<noteq> 0" and "nobs \<noteq> 0" and "null_deviance / (- 2) \<noteq> nobs"
    and "llh_null = null_deviance / (- 2)"
    and "r2ML = 1 - llh_null / llf"
    and "r2CU = r2ML / (1 - llh_null / nobs)"
  shows "compute_pseudo_r2 model model_name w =
     (Inr (PyFrame
        [(''Model'', [Str model_name, Str model_name]),
         (''Metric'', [Str ''r2ML'', Str ''r2CU'']),
         (''Value'', [Num r2ML, Num r2CU])]),
      w)"
  unfolding assms(8-10) by (rule compute_pseudo_r2_run [OF assms(1-7)])

theorem compute_pseudo_r2_formula_witness:
  "compute_pseudo_r2 0 ''Model'' r2_world =
     (Inr (PyFrame
        [(''Model'', [Str ''Model'', Str ''Model'']),
         (''Metric'', [Str ''r2ML'', Str ''r2CU'']),
         (''Value'', [Num (- 0.25), Num (- (1 / 12))])]),
      r2_world)"
  by (rule compute_pseudo_r2_formula [where llf = "- 80" and null_deviance = 200
        and nobs = 50 and llh_null = "- 100"])
     (simp_all add: r2_world_def)

section \<open>Objects of the caller\<close>

lemma reads_only_ret: "reads_only (ret x)"
  by (simp add: reads_only_def ret_def)

lemma reads_only_lift: "reads_only (lift r)"
  by (simp add: reads_only_def lift_def)

lemma reads_only_print: "reads_only (print l)"
  by (simp add: reads_only_def print_def)

lemma reads_only_plt_show: "reads_only (plt_show c)"
  by (simp add: reads_only_def plt_show_def)

lemma reads_only_getattr: "reads_only (getattr m name)"
  by (simp add: reads_only_def getattr_def split: option.splits)

lemma reads_only_frame_of: "reads_only (frame_of df e)"
  by (simp add: reads_only_def frame_of_def)

lemma reads_only_then_do:
  assumes "reads_only p" and "\<And>x. reads_only (f x)"
  shows "reads_only (then_do p f)"
proof (unfold reads_only_def, intro allI)
  fix w
  obtain r w' where pw: "p w = (r, w')" by (cases "p w")
  from assms(1) pw have same: "frames w' = frames w" "models w' = models w"
    by (auto simp: reads_only_def dest: spec [of _ w])
  show "frames (snd (then_do p f w)) = frames w \<and> models (snd (then_do p f w)) = models w"
  proof (cases r)
    case (Inl e)
    with pw same show ?thesis by (simp add: then_do_def)
  next
    case (Inr x)
    from assms(2) [of x] have "frames (snd (f x w')) = frames w'" "models (snd (f x w')) = models w'"
      by (auto simp: reads_only_def)
    with pw same Inr show ?thesis by (simp add: then_do_def)
  qed
qed

lemma reads_only_if: "reads_only p \<Longrightarrow> reads_only q \<Longrightarrow> reads_only (if b then p else q)"
  by simp

lemmas reads_only_intros = reads_only_then_do reads_only_if reads_only_ret reads_only_lift
  reads_only_print reads_only_plt_show reads_only_getattr reads_only_frame_of

lemma reads_only_untouched: "reads_only p \<Longrightarrow> untouched w (snd (p w))"
  by (simp add: reads_only_def untouched_def)

lemma compare_models_aic_reads_only: "reads_only (compare_models_aic model1 model2 name1 name2)"
  unfolding compare_models_aic_def by (intro reads_only_intros)

lemma likelihood_ratio_test_reads_only: "reads_only (likelihood_ratio_test chi2_sf model1 model2 name1 name2)"
  unfolding likelihood_ratio_test_def Let_def by (intro reads_only_intros)

lemma compute_pseudo_r2_reads_only: "reads_only (compute_pseudo_r2 model model_name)"
  unfolding compute_pseudo_r2_def Let_def by (intro reads_only_intros)

lemma compute_vif_reads_only: "reads_only (compute_vif sm_add_constant variance_inflation_factor df features add_constant)"
  unfolding compute_vif_def by (intro reads_only_intros)

lemma dataset_info_reads_only: "reads_only (dataset_info dtype df)"
  unfolding dataset_info_def by (intro reads_only_intros)

lemma plot_accidents_by_day_reads_only: "reads_only (plot_accidents_by_day df day_col value_col title xlabel ylabel day_order)"
  unfolding plot_accidents_by_day_def Let_def by (intro reads_only_intros)

lemma plot_accidents_by_road_type_reads_only: "reads_only (plot_accidents_by_road_type pd df road_col value_col title xlabel ylabel color)"
  unfolding plot_accidents_by_road_type_def Let_def by (intro reads_only_intros)

lemma plot_accidents_by_hour_reads_only: "reads_only (plot_accidents_by_hour df hour_col value_col title xlabel ylabel color)"
  unfolding plot_accidents_by_hour_def by (intro reads_only_intros)

lemma plot_accidents_by_light_condition_reads_only: "reads_only (plot_accidents_by_light_condition pd df light_col value_col title colors)"
  unfolding plot_accidents_by_light_condition_def Let_def by (intro reads_only_intros)

lemma plot_accident_severity_reads_only: "reads_only (plot_accident_severity_by_light_condition pd df light_col severity_cols
       accident_type_mapping colors title xlabel ylabel)"
  unfolding plot_accident_severity_by_light_condition_def Let_def by (intro reads_only_intros)


lemma plot_avg_run:
  "plot_avg_accidents_weekday_vs_weekend df day_col value_col binary_col weekend_days colors
       title xlabel ylabel w =
    (if df < length (frames w) then
       (case getitem (frames w ! df) day_col of
          Inl e \<Rightarrow> (Inl e, w\<lparr>frames := frames w @ [frames w ! df]\<rparr>)
        | Inr days \<Rightarrow>
           (case loc_setitem (frames w ! df) binary_col
                  (map (weekend_or_weekday
                     (case weekend_days of None \<Rightarrow> [''Samedi'', ''Dimanche''] | Some ds \<Rightarrow> ds)) days) of
              Inl e \<Rightarrow> (Inl e, w\<lparr>frames := frames w @ [frames w ! df]\<rparr>)
            | Inr fr \<Rightarrow>
               (let w' = w\<lparr>frames := frames w @ [fr]\<rparr> in
                case groupby_agg sum_cells fr [day_col, binary_col] value_col of
                  Inl e \<Rightarrow> (Inl e, w')
                | Inr day_grouped \<Rightarrow>
                   (case groupby_agg mean_cells day_grouped [binary_col] value_col of
                      Inl e \<Rightarrow> (Inl e, w')
                    | Inr avg \<Rightarrow>
                       (Inr PyNone,
                        w'\<lparr>shown := shown w @
                          [Barplot (plain (rename avg value_col ''Average_Accidents'')) binary_col
                             ''Average_Accidents''
                             (case colors of None \<Rightarrow> [''#E0897E'', ''#63B7C3''] | Some cs \<Rightarrow> cs)
                             title xlabel ylabel]\<rparr>)))))
     else (Inl (AttributeError ''copy''), w))"
  by (simp add: plot_avg_accidents_weekday_vs_weekend_def Let_def copy_def frame_of_def
      then_do_def lift_def store_def plt_show_def ret_def split: sum.splits)


lemma plot_avg_untouched:
  "untouched w (snd (plot_avg_accidents_weekday_vs_weekend df day_col value_col binary_col
     weekend_days colors title xlabel ylabel w))"
  by (simp add: plot_avg_run untouched_def Let_def split: sum.splits)

text \<open>
  C6. No helper changes an object the caller can reach: after every call, whatever its
  outcome, the frames and models that existed before are the same (a call may only add new
  frames). \<open>plot_avg_accidents_weekday_vs_weekend\<close> in particular writes its Weekend/Weekday
  column into the copy it has allocated at a new reference; when pandas refuses the write,
  the copy stays as it was made.
\<close>

theorem caller_objects_untouched:
  "untouched w (snd (compare_models_aic model1 model2 name1 name2 w)) \<and>
   untouched w (snd (likelihood_ratio_test chi2_sf model1 model2 name1 name2 w)) \<and>
   untouched w (snd (compute_pseudo_r2 model model_name w)) \<and>
   untouched w (snd (compute_vif sm_add_constant variance_inflation_factor df features
     add_constant w)) \<and>
   untouched w (snd (dataset_info dtype df w)) \<and>
   untouched w (snd (plot_accidents_by_day df day_col value_col title xlabel ylabel
     day_order w)) \<and>
   untouched w (snd (plot_avg_accidents_weekday_vs_weekend df day_col value_col binary_col
     weekend_days colors title xlabel ylabel w)) \<and>
   untouched w (snd (plot_accidents_by_road_type pd df road_col value_col title xlabel ylabel
     color w)) \<and>
   untouched w (snd (plot_accidents_by_hour df hour_col value_col title xlabel ylabel
     color w)) \<and>
   untouched w (snd (plot_accidents_by_light_condition pd df light_col value_col title
     wedge_colors w)) \<and>
   untouched w (snd (plot_accident_severity_by_light_condition pd df light_col severity_cols
     accident_type_mapping colors title xlabel ylabel w)) \<and>
   (df < length (frames w) \<longrightarrow> getitem (frames w ! df) day_col = Inr days \<longrightarrow>
      frames (snd (plot_avg_accidents_weekday_vs_weekend df day_col value_col binary_col
        weekend_days colors title xlabel ylabel w)) =
      frames w @
        [case loc_setitem (frames w ! df) binary_col
           (map (weekend_or_weekday
              (case weekend_days of None \<Rightarrow> [''Samedi'', ''Dimanche''] | Some ds \<Rightarrow> ds)) days) of
           Inr labelled \<Rightarrow> labelled
         | Inl refused \<Rightarrow> frames w ! df])"
proof -
  have "df < length (frames w) \<longrightarrow> getitem (frames w ! df) day_col = Inr days \<longrightarrow>
      frames (snd (plot_avg_accidents_weekday_vs_weekend df day_col value_col binary_col
        weekend_days colors title xlabel ylabel w)) =
      frames w @
        [case loc_setitem (frames w ! df) binary_col
           (map (weekend_or_weekday
              (case weekend_days of None \<Rightarrow> [''Samedi'', ''Dimanche''] | Some ds \<Rightarrow> ds)) days) of
           Inr labelled \<Rightarrow> labelled
         | Inl refused \<Rightarrow> frames w ! df]"
    by (simp add: plot_avg_run Let_def split: sum.splits)
  then show ?thesis
    by (intro conjI reads_only_untouched compare_models_aic_reads_only
        likelihood_ratio_test_reads_only compute_pseudo_r2_reads_only compute_vif_reads_only
        dataset_info_reads_only plot_accidents_by_day_reads_only
        plot_accidents_by_road_type_reads_only plot_accidents_by_hour_reads_only
        plot_accidents_by_light_condition_reads_only plot_accident_severity_reads_only
        plot_avg_untouched)
qed

theorem caller_objects_untouched_witness:
  "untouched week_world (snd (plot_avg_accidents_weekday_vs_weekend 0 ''Jour'' ''Accidents''
     ''Weekend'' None None ''t'' ''x'' ''y'' week_world)) \<and>
   frames (snd (plot_avg_accidents_weekday_vs_weekend 0 ''Jour'' ''Accidents''
     ''Weekend'' None None ''t'' ''x'' ''y'' week_world)) =
   frames week_world @
     [[(''Jour'', map Str [''Samedi'', ''Lundi'', ''Dimanche'', ''Mardi'', ''Samedi'',
                          ''Mercredi'', ''Lundi'', ''Jeudi'', ''Vendredi'', ''Mercredi'']),
       (''Accidents'', map Int64 [4, 2, 20, 5, 6, 1, 3, 5, 5, 4]),
       (''Weekend'', map Str [''Weekend'', ''Weekday'', ''Weekend'', ''Weekday'', ''Weekend'',
                             ''Weekday'', ''Weekday'', ''Weekday'', ''Weekday'', ''Weekday''])]]"
  using caller_objects_untouched [where w = week_world and df = 0 and day_col = "''Jour''"
      and value_col = "''Accidents''" and binary_col = "''Weekend''" and weekend_days = None
      and colors = None and title = "''t''" and xlabel = "''x''" and ylabel = "''y''"
      and days = "map Str [''Samedi'', ''Lundi'', ''Dimanche'', ''Mardi'', ''Samedi'',
                          ''Mercredi'', ''Lundi'', ''Jeudi'', ''Vendredi'', ''Mercredi'']"]
  by (simp add: week_world_def getitem_def loc_setitem_def weekend_or_weekday_def)


section \<open>Determinism of the chart functions\<close>

lemma chart_fn_ret: "chart_fn df (ret x)"
  by (simp add: chart_fn_def ret_def)

lemma chart_fn_lift: "chart_fn df (lift r)"
  by (simp add: chart_fn_def lift_def)

lemma chart_fn_plt_show: "chart_fn df (plt_show c)"
  by (simp add: chart_fn_def plt_show_def frame_at_def)

lemma chart_fn_frame_of: "chart_fn df (frame_of df e)"
  by (auto simp: chart_fn_def frame_of_def frame_at_def split: if_splits)

lemma chart_fn_then_do:
  assumes p: "chart_fn df p" and f: "\<And>x. chart_fn df (f x)"
  shows "chart_fn df (then_do p f)"
proof (unfold chart_fn_def, intro allI impI)
  fix w w' assume eq: "frame_at w df = frame_at w' df"
  obtain r v where pw: "p w = (r, v)" by (cases "p w")
  obtain r' v' where pw': "p w' = (r', v')" by (cases "p w'")
  from p eq have "fst (p w) = fst (p w') \<and> frame_at (snd (p w)) df = frame_at (snd (p w')) df \<and>
     (\<exists>cs. shown (snd (p w)) = shown w @ cs \<and> shown (snd (p w')) = shown w' @ cs)"
    unfolding chart_fn_def by blast
  with pw pw' obtain cs where rr: "r' = r" and vv: "frame_at v df = frame_at v' df"
    and cs: "shown v = shown w @ cs" "shown v' = shown w' @ cs"
    by auto
  show "fst (then_do p f w) = fst (then_do p f w') \<and>
        frame_at (snd (then_do p f w)) df = frame_at (snd (then_do p f w')) df \<and>
        (\<exists>cs. shown (snd (then_do p f w)) = shown w @ cs \<and>
              shown (snd (then_do p f w')) = shown w' @ cs)"
  proof (cases r)
    case (Inl e)
    have "then_do p f w = (Inl e, v)" "then_do p f w' = (Inl e, v')"
      using pw pw' rr Inl by (simp_all add: then_do_def)
    with vv cs show ?thesis by simp
  next
    case (Inr x)
    have run: "then_do p f w = f x v" "then_do p f w' = f x v'"
      using pw pw' rr Inr by (simp_all add: then_do_def)
    from f [of x] vv have "fst (f x v) = fst (f x v') \<and>
       frame_at (snd (f x v)) df = frame_at (snd (f x v')) df \<and>
       (\<exists>ds. shown (snd (f x v)) = shown v @ ds \<and> shown (snd (f x v')) = shown v' @ ds)"
      unfolding chart_fn_def by blast
    then obtain ds where 1: "fst (f x v) = fst (f x v')"
      and 2: "frame_at (snd (f x v)) df = frame_at (snd (f x v')) df"
      and 3: "shown (snd (f x v)) = shown v @ ds" "shown (snd (f x v')) = shown v' @ ds"
      by blast
    from 3 cs have "shown (snd (f x v)) = shown w @ (cs @ ds)"
      "shown (snd (f x v')) = shown w' @ (cs @ ds)" by simp_all
    with 1 2 run show ?thesis by (simp only:) blast
  qed
qed

lemmas chart_fn_intros = chart_fn_then_do chart_fn_ret chart_fn_lift chart_fn_plt_show
  chart_fn_frame_of

lemma chart_fn_same_run:
  assumes "chart_fn df p" and "frame_at w df = frame_at w' df"
  shows "same_run p w w'"
proof -
  from assms obtain cs where "fst (p w) = fst (p w')"
    "shown (snd (p w)) = shown w @ cs" "shown (snd (p w')) = shown w' @ cs"
    unfolding chart_fn_def by blast
  then show ?thesis by (simp add: same_run_def new_charts_def)
qed

lemma plot_accidents_by_day_chart_fn:
  "chart_fn df (plot_accidents_by_day df day_col value_col title xlabel ylabel day_order)"
  unfolding plot_accidents_by_day_def Let_def by (intro chart_fn_intros)

lemma plot_accidents_by_road_type_chart_fn:
  "chart_fn df (plot_accidents_by_road_type pd df road_col value_col title xlabel ylabel color)"
  unfolding plot_accidents_by_road_type_def Let_def by (intro chart_fn_intros)

lemma plot_accidents_by_hour_chart_fn:
  "chart_fn df (plot_accidents_by_hour df hour_col value_col title xlabel ylabel color)"
  unfolding plot_accidents_by_hour_def by (intro chart_fn_intros)

lemma plot_accidents_by_light_condition_chart_fn:
  "chart_fn df (plot_accidents_by_light_condition pd df light_col value_col title colors)"
  unfolding plot_accidents_by_light_condition_def Let_def by (intro chart_fn_intros)

lemma plot_accident_severity_chart_fn: "chart_fn df (plot_accident_severity_by_light_condition pd df light_col severity_cols
       accident_type_mapping colors title xlabel ylabel)"
  unfolding plot_accident_severity_by_light_condition_def Let_def by (intro chart_fn_intros)

lemma plot_avg_same_run:
  assumes "frame_at w df = frame_at w' df"
  shows "same_run (plot_avg_accidents_weekday_vs_weekend df day_col value_col binary_col
     weekend_days colors title xlabel ylabel) w w'"
proof (cases "df < length (frames w)")
  case True
  with assms have "df < length (frames w')" and "frames w' ! df = frames w ! df"
    by (auto simp: frame_at_def split: if_splits)
  with True show ?thesis
    by (simp add: same_run_def new_charts_def plot_avg_run Let_def split: sum.splits)
next
  case False
  with assms have "\<not> df < length (frames w')"
    by (auto simp: frame_at_def split: if_splits)
  with False show ?thesis
    by (simp add: same_run_def new_charts_def plot_avg_run)
qed

lemma reads_only_frame_at: "reads_only p \<Longrightarrow> frame_at (snd (p w)) df = frame_at w df"
  by (simp add: reads_only_def frame_at_def)

lemma plot_avg_frame_at:
  "frame_at (snd (plot_avg_accidents_weekday_vs_weekend df day_col value_col binary_col
     weekend_days colors title xlabel ylabel w)) df = frame_at w df"
  by (simp add: plot_avg_run frame_at_def Let_def nth_append split: sum.splits)

text \<open>
  C9. The outcome of a chart function and the charts it shows (with the aggregated data they
  carry) are determined by the DataFrame under the reference it is given and by its other
  arguments: two calls in two worlds that hold the same frame there end alike and show the
  same charts, and so does a second call made right after a first one.
\<close>

theorem chart_functions_deterministic:
  "(frame_at w df = frame_at w' df \<longrightarrow>
      same_run (plot_accidents_by_day df day_col value_col title xlabel ylabel day_order) w w' \<and>
      same_run (plot_avg_accidents_weekday_vs_weekend df day_col value_col binary_col
        weekend_days colors title xlabel ylabel) w w' \<and>
      same_run (plot_accidents_by_road_type pd df road_col value_col title xlabel ylabel
        color) w w' \<and>
      same_run (plot_accidents_by_hour df hour_col value_col title xlabel ylabel color) w w' \<and>
      same_run (plot_accidents_by_light_condition pd df light_col value_col title
        wedge_colors) w w' \<and>
      same_run (plot_accident_severity_by_light_condition pd df light_col severity_cols
        accident_type_mapping colors title xlabel ylabel) w w') \<and>
   same_run (plot_accidents_by_day df day_col value_col title xlabel ylabel day_order) w
     (snd (plot_accidents_by_day df day_col value_col title xlabel ylabel day_order w)) \<and>
   same_run (plot_avg_accidents_weekday_vs_weekend df day_col value_col binary_col
     weekend_days colors title xlabel ylabel) w
     (snd (plot_avg_accidents_weekday_vs_weekend df day_col value_col binary_col
        weekend_days colors title xlabel ylabel w)) \<and>
   same_run (plot_accidents_by_road_type pd df road_col value_col title xlabel ylabel color) w
     (snd (plot_accidents_by_road_type pd df road_col value_col title xlabel ylabel color w)) \<and>
   same_run (plot_accidents_by_hour df hour_col value_col title xlabel ylabel color) w
     (snd (plot_accidents_by_hour df hour_col value_col title xlabel ylabel color w)) \<and>
   same_run (plot_accidents_by_light_condition pd df light_col value_col title wedge_colors) w
     (snd (plot_accidents_by_light_condition pd df light_col value_col title wedge_colors w)) \<and>
   same_run (plot_accident_severity_by_light_condition pd df light_col severity_cols
     accident_type_mapping colors title xlabel ylabel) w
     (snd (plot_accident_severity_by_light_condition pd df light_col severity_cols
        accident_type_mapping colors title xlabel ylabel w))"
  by (intro conjI impI chart_fn_same_run [OF plot_accidents_by_day_chart_fn]
      chart_fn_same_run [OF plot_accidents_by_road_type_chart_fn]
      chart_fn_same_run [OF plot_accidents_by_hour_chart_fn]
      chart_fn_same_run [OF plot_accidents_by_light_condition_chart_fn]
      chart_fn_same_run [OF plot_accident_severity_chart_fn]
      plot_avg_same_run sym [OF reads_only_frame_at]
      plot_accidents_by_day_reads_only plot_accidents_by_road_type_reads_only
      plot_accidents_by_hour_reads_only plot_accidents_by_light_condition_reads_only
      plot_accident_severity_reads_only sym [OF plot_avg_frame_at])

theorem chart_functions_deterministic_witness:
  "frame_at week_world 0 = frame_at busy_week_world 0 \<and>
   same_run (plot_accidents_by_day 0 ''Jour'' ''Accidents'' ''t'' ''x'' ''y'' None)
     week_world busy_week_world \<and>
   same_run (plot_avg_accidents_weekday_vs_weekend 0 ''Jour'' ''Accidents'' ''Weekend'' None
     None ''t'' ''x'' ''y'') week_world busy_week_world"
  using chart_functions_deterministic [where w = week_world and w' = busy_week_world
      and df = 0 and day_col = "''Jour''" and value_col = "''Accidents''" and title = "''t''"
      and xlabel = "''x''" and ylabel = "''y''" and day_order = None
      and binary_col = "''Weekend''" and weekend_days = None and colors = None]
  by (simp add: frame_at_def busy_week_world_def week_world_def)


section \<open>Failures\<close>






















































section \<open>Grouping and sorting\<close>

lemma collect_all_Inr:
  "(\<And>x. x \<in> set xs \<Longrightarrow> f x = Inr (g x)) \<Longrightarrow> collect f xs = Inr (map g xs)"
  by (induction xs) (simp_all add: and_then_def)

lemma wrap64_in_range: "in_int64 n \<Longrightarrow> wrap64 n = n"
  by (simp add: in_int64_def wrap64_def)

lemma the_ints_whole: "the_ints (map Int64 ns) = Inr ns"
  by (induction ns) (simp_all add: and_then_def)

lemma sum_cells_whole: "sum_cells (map Int64 ns) = Inr (Int64 (wrap64 (sum_list ns)))"
  by (cases ns) (simp_all add: the_ints_whole and_then_def wrap64_def)

lemma the_numbers_whole: "the_numbers (map Int64 ns) = Inr (map real_of_int ns)"
  by (induction ns) (simp_all add: and_then_def)

lemma mean_cells_whole:
  "ns \<noteq> [] \<Longrightarrow>
   mean_cells (map Int64 ns) = Inr (Num (sum_list (map real_of_int ns) / real (length ns)))"
  by (simp add: mean_cells_def the_numbers_whole and_then_def py_div_def)

lemma select_group_map_values: "select_group ks (map f vs) k = map f (select_group ks vs k)"
  by (induction ks arbitrary: vs) (auto simp: select_group_def split: list.splits
      simp: zip_Cons1)

lemma select_group_map_keys:
  "inj h \<Longrightarrow> select_group (map h ks) vs (h k) = select_group ks vs k"
  by (induction ks arbitrary: vs) (auto simp: select_group_def zip_Cons1 inj_eq split: list.splits)

lemma select_group_same:
  "select_group (map f xs) (map g xs) k = map g (filter (\<lambda>x. f x = k) xs)"
  by (induction xs) (auto simp: select_group_def)

lemma embeds_inj: "embeds h \<Longrightarrow> inj h"
  unfolding embeds_def inj_def by (metis order_antisym order_refl)

lemma insort_embeds: "embeds h \<Longrightarrow> insort (h x) (map h xs) = map h (insort x xs)"
  by (induction xs) (auto simp: embeds_def)

lemma sort_embeds: "embeds h \<Longrightarrow> sort (map h xs) = map h (sort xs)"
  by (induction xs) (simp_all add: insort_embeds)

lemma remdups_inj: "inj h \<Longrightarrow> remdups (map h xs) = map h (remdups xs)"
  by (induction xs) (auto simp: inj_eq)

lemma groups_embeds:
  "embeds h \<Longrightarrow> sort (remdups (map h xs)) = map h (sort (remdups xs))"
  by (simp add: remdups_inj embeds_inj sort_embeds)

lemma embeds_single: "embeds (\<lambda>l. [Str l])"
  by (auto simp: embeds_def less_cell_def)

lemma embeds_pair: "embeds (\<lambda>l. [Str l, Str (f l)])"
  by (auto simp: embeds_def less_cell_def)


lemma collect_map: "collect f (map h xs) = collect (\<lambda>x. f (h x)) xs"
  by (induction xs) simp_all

lemma groupby_agg_run:
  assumes keys: "collect (getitem df) by = Inr key_cols"
    and rows: "row_keys key_cols = map h labels"
    and emb: "embeds h"
    and vals: "getitem df value_col = Inr vals"
    and agg: "\<And>l. l \<in> set labels \<Longrightarrow> agg (select_group labels vals l) = Inr (g l)"
  shows "groupby_agg agg df by value_col =
    Inr (zip by (map (\<lambda>j. map (\<lambda>l. h l ! j) (sort (remdups labels))) [0..<length by]) @
         [(value_col, map g (sort (remdups labels)))])"
proof -
  let ?G = "sort (remdups labels)"
  have groups: "sort (remdups (map h labels)) = map h ?G"
    by (rule groups_embeds [OF emb])
  have "collect (\<lambda>k. agg (select_group (map h labels) vals k)) (map h ?G) =
        collect (\<lambda>l. agg (select_group labels vals l)) ?G"
    by (simp add: collect_map select_group_map_keys [OF embeds_inj [OF emb]])
  also have "\<dots> = Inr (map g ?G)"
    by (rule collect_all_Inr) (simp add: agg)
  finally have aggregated:
    "collect (\<lambda>k. agg (select_group (map h labels) vals k)) (map h ?G) = Inr (map g ?G)" .
  show ?thesis
    by (simp add: groupby_agg_def keys vals Let_def rows groups aggregated and_then_def
        comp_def)
qed

lemma sum_cells_group:
  "sum_cells (select_group labels (map Int64 ns) l) =
     Inr (Int64 (wrap64 (sum_list (select_group labels ns l))))"
  by (simp only: select_group_map_values sum_cells_whole)

lemma groupby_sum_by_day:
  assumes day: "getitem df day_col = Inr (map Str labels)"
    and vals: "getitem df value_col = Inr (map Int64 ns)"
  shows "groupby_agg sum_cells df [day_col] value_col =
    Inr [(day_col, map Str (sort (remdups labels))),
         (value_col, map (\<lambda>l. Int64 (wrap64 (sum_list (select_group labels ns l))))
            (sort (remdups labels)))]"
proof -
  have "groupby_agg sum_cells df [day_col] value_col =
    Inr (zip [day_col] (map (\<lambda>j. map (\<lambda>l. [Str l] ! j) (sort (remdups labels)))
           [0..<length [day_col]]) @
         [(value_col, map (\<lambda>l. Int64 (wrap64 (sum_list (select_group labels ns l))))
            (sort (remdups labels)))])"
  proof (rule groupby_agg_run [where key_cols = "[map Str labels]"])
    show "collect (getitem df) [day_col] = Inr [map Str labels]"
      by (simp add: day and_then_def)
    show "row_keys [map Str labels] = map (\<lambda>l. [Str l]) labels"
      by (simp add: comp_def)
    show "embeds (\<lambda>l. [Str l])" by (rule embeds_single)
    show "getitem df value_col = Inr (map Int64 ns)" by (rule vals)
    show "sum_cells (select_group labels (map Int64 ns) l) =
        Inr (Int64 (wrap64 (sum_list (select_group labels ns l))))" for l
      by (rule sum_cells_group)
  qed
  then show ?thesis by simp
qed


lemma position_Cons: "position (a # xs) x = (if a = x then 0 else Suc (position xs x))"
  by (simp add: position_def)

lemma nth_position: "x \<in> set xs \<Longrightarrow> xs ! position xs x = x"
  by (induction xs) (auto simp: position_Cons)

lemma position_less: "x \<in> set xs \<Longrightarrow> position xs x < length xs"
  by (induction xs) (auto simp: position_Cons)

lemma position_inj_on: "inj_on (position xs) (set xs)"
  by (rule inj_onI) (metis nth_position)

lemma map_position: "distinct xs \<Longrightarrow> map (position xs) xs = [0..<length xs]"
proof (induction xs)
  case Nil
  then show ?case by simp
next
  case (Cons a xs)
  from Cons.prems have "a \<notin> set xs" by simp
  then have step: "map (position (a # xs)) xs = map Suc (map (position xs) xs)"
    by (auto simp: position_Cons)
  from Cons have "map (position xs) xs = [0..<length xs]" by simp
  with step have "map (position (a # xs)) xs = [Suc 0..<Suc (length xs)]"
    by (simp only: map_Suc_upt)
  then have "map (position (a # xs)) (a # xs) = 0 # [Suc 0..<Suc (length xs)]"
    by (simp add: position_Cons)
  also have "\<dots> = [0..<length (a # xs)]"
    by (simp add: upt_conv_Cons del: upt_Suc)
  finally show ?case .
qed

lemma sort_by_position:
  assumes "distinct G" and "distinct order"
  shows "sort_key (position order) (filter (\<lambda>l. l \<in> set order) G) =
         filter (\<lambda>d. d \<in> set G) order"
proof -
  let ?A = "sort_key (position order) (filter (\<lambda>l. l \<in> set order) G)"
  let ?B = "filter (\<lambda>d. d \<in> set G) order"
  have sets: "set ?A = set ?B" by auto
  have sub: "set ?A \<subseteq> set order" "set ?B \<subseteq> set order" by auto
  have inj: "inj_on (position order) (set ?A \<union> set ?B)"
    by (rule inj_on_subset [OF position_inj_on]) (use sub in blast)
  have sA: "sorted (map (position order) ?A)" by (rule sorted_sort_key)
  have sB: "sorted (map (position order) ?B)"
    by (rule sorted_filter) (simp add: map_position assms(2))
  have dA: "distinct (map (position order) ?A)"
    using assms(1) by (simp add: distinct_map inj_on_subset [OF inj])
  have dB: "distinct (map (position order) ?B)"
    using assms(2) by (simp add: distinct_map inj_on_subset [OF inj])
  have "set (map (position order) ?A) = set (map (position order) ?B)"
    using sets by (metis set_map)
  with sA dA sB dB have "map (position order) ?A = map (position order) ?B"
    by (rule sorted_distinct_set_unique)
  then show ?thesis by (simp only: inj_on_map_eq_map [OF inj])
qed


lemma insort_key_map:
  "insort_key k (f x) (map f xs) = map f (insort_key (\<lambda>x. k (f x)) x xs)"
  by (induction xs) simp_all

lemma sort_key_map: "sort_key k (map f xs) = map f (sort_key (\<lambda>x. k (f x)) xs)"
  by (induction xs) (simp_all add: insort_key_map)

lemma concat_case_None:
  "concat (map (\<lambda>(i, v). case v of None \<Rightarrow> [i] | Some s \<Rightarrow> []) rows) =
   map fst (filter (\<lambda>(i, v). v = None) rows)"
  by (induction rows) (auto split: option.splits)

lemma concat_case_Some:
  "concat (map (\<lambda>(i, v). case v of None \<Rightarrow> [] | Some s \<Rightarrow> [(i, f s)]) rows) =
   map (\<lambda>(i, v). (i, f (the v))) (filter (\<lambda>(i, v). v \<noteq> None) rows)"
  by (induction rows) (auto split: option.splits)

lemma argsort_marked:
  "argsort (Categorical order (map (mark order) G)) =
     map fst (sort_key (\<lambda>(i, l). position order l)
       (filter (\<lambda>(i, l). l \<in> set order) (zip [0..<length G] G))) @
     map fst (filter (\<lambda>(i, l). l \<notin> set order) (zip [0..<length G] G))"
proof -
  let ?E = "zip [0..<length G] G"
  have rows: "zip [0..<length G] (map (mark order) G) = map (\<lambda>(i, l). (i, mark order l)) ?E"
    by (simp add: zip_map2)
  have none: "filter (\<lambda>(i, v). v = None) (map (\<lambda>(i, l). (i, mark order l)) ?E) =
      map (\<lambda>(i, l). (i, mark order l)) (filter (\<lambda>(i, l). l \<notin> set order) ?E)"
    by (simp add: filter_map comp_def mark_def case_prod_unfold)
  have some: "filter (\<lambda>(i, v). v \<noteq> None) (map (\<lambda>(i, l). (i, mark order l)) ?E) =
      map (\<lambda>(i, l). (i, mark order l)) (filter (\<lambda>(i, l). l \<in> set order) ?E)"
    by (simp add: filter_map comp_def mark_def case_prod_unfold)
  have keyed: "map (\<lambda>(i, v). (i, position order (the v)))
        (map (\<lambda>(i, l). (i, mark order l)) (filter (\<lambda>(i, l). l \<in> set order) ?E)) =
      map (\<lambda>(i, l). (i, position order l)) (filter (\<lambda>(i, l). l \<in> set order) ?E)"
    by (auto simp: mark_def)
  let ?R = "map (\<lambda>(i, l). (i, mark order l)) ?E"
  let ?S = "filter (\<lambda>(i, l). l \<in> set order) ?E"
  let ?N = "filter (\<lambda>(i, l). l \<notin> set order) ?E"
  have "argsort (Categorical order (map (mark order) G)) =
      map fst (sort_key snd (concat (map
        (\<lambda>(i, v). case v of None \<Rightarrow> [] | Some s \<Rightarrow> [(i, position order s)]) ?R))) @
      concat (map (\<lambda>(i, v). case v of None \<Rightarrow> [i] | Some s \<Rightarrow> []) ?R)"
    by (simp only: argsort.simps Let_def length_map rows)
  also have "\<dots> = map fst (sort_key snd (map (\<lambda>(i, l). (i, position order l)) ?S)) @
      map fst (map (\<lambda>(i, l). (i, mark order l)) ?N)"
    by (simp only: concat_case_None concat_case_Some none some keyed)
  also have "map fst (map (\<lambda>(i, l). (i, mark order l)) ?N) = map fst ?N"
    by (simp add: comp_def case_prod_unfold)
  also have "map fst (sort_key snd (map (\<lambda>(i, l). (i, position order l)) ?S)) =
      map fst (sort_key (\<lambda>(i, l). position order l) ?S)"
    by (simp add: sort_key_map comp_def case_prod_unfold)
  finally show ?thesis .
qed


lemma enumerated_nth:
  assumes "set rows \<subseteq> set (zip [0..<length G] G)"
  shows "map ((!) (map c G)) (map fst rows) = map c (map snd rows)"
proof -
  have "(map c G) ! i = c l" if "(i, l) \<in> set rows" for i l
  proof -
    from that assms have "(i, l) \<in> set (zip [0..<length G] G)" by blast
    then have "i < length G \<and> G ! i = l"
      by (auto simp: set_zip)
    then show ?thesis by auto
  qed
  then show ?thesis by (auto simp: map_eq_conv)
qed

lemma map_snd_filter: "map snd (filter (\<lambda>(i, l). P l) rows) = filter P (map snd rows)"
  by (induction rows) auto

lemma take_rows_marked:
  "map ((!) (map c G)) (argsort (Categorical order (map (mark order) G))) =
   map c (sort_key (position order) (filter (\<lambda>l. l \<in> set order) G) @
          filter (\<lambda>l. l \<notin> set order) G)"
proof -
  let ?E = "zip [0..<length G] G"
  let ?S = "sort_key (\<lambda>(i, l). position order l) (filter (\<lambda>(i, l). l \<in> set order) ?E)"
  let ?N = "filter (\<lambda>(i, l). l \<notin> set order) ?E"
  have snd_E: "map snd ?E = G" by simp
  have "map snd ?S = sort_key (position order) (map snd (filter (\<lambda>(i, l). l \<in> set order) ?E))"
    by (simp add: sort_key_map case_prod_unfold)
  then have S: "map snd ?S = sort_key (position order) (filter (\<lambda>l. l \<in> set order) G)"
    by (simp only: map_snd_filter snd_E)
  have N: "map snd ?N = filter (\<lambda>l. l \<notin> set order) G"
    by (simp only: map_snd_filter snd_E)
  have "map ((!) (map c G)) (map fst ?S) = map c (map snd ?S)"
    by (rule enumerated_nth) auto
  moreover have "map ((!) (map c G)) (map fst ?N) = map c (map snd ?N)"
    by (rule enumerated_nth) auto
  ultimately show ?thesis
    by (simp only: argsort_marked map_append S N)
qed


lemma pd_Categorical_labels:
  "distinct order \<Longrightarrow>
   pd_Categorical (map Str G) order = Inr (Categorical order (map (mark order) G))"
  by (simp add: pd_Categorical_def mark_def comp_def)

lemma mark_listed:
  "map (mark order) (filter (\<lambda>d. d \<in> set G) order) = map Some (filter (\<lambda>d. d \<in> set G) order)"
  by (induction order) (auto simp: mark_def)

lemma mark_unlisted:
  "map (mark order) (filter (\<lambda>l. l \<notin> set order) G) =
   map (\<lambda>l. None) (filter (\<lambda>l. l \<notin> set order) G)"
  by (auto simp: mark_def)

lemma sort_values_by_day:
  assumes "day_col \<noteq> value_col" and "distinct G" and "distinct order"
  shows "sort_values [(day_col, Categorical order (map (mark order) G)),
                      (value_col, Plain (map c G))] day_col =
    Inr [(day_col, Categorical order
            (map Some (filter (\<lambda>d. d \<in> set G) order) @
             map (\<lambda>l. None) (filter (\<lambda>l. l \<notin> set order) G))),
         (value_col, Plain (map c (filter (\<lambda>d. d \<in> set G) order @
             filter (\<lambda>l. l \<notin> set order) G)))]"
proof -
  let ?perm = "argsort (Categorical order (map (mark order) G))"
  have days: "map ((!) (map (mark order) G)) ?perm =
      map Some (filter (\<lambda>d. d \<in> set G) order) @
      map (\<lambda>l. None) (filter (\<lambda>l. l \<notin> set order) G)"
    by (simp only: take_rows_marked sort_by_position [OF assms(2,3)] map_append mark_listed
        mark_unlisted)
  have vals: "map ((!) (map c G)) ?perm =
      map c (filter (\<lambda>d. d \<in> set G) order @ filter (\<lambda>l. l \<notin> set order) G)"
    by (simp only: take_rows_marked sort_by_position [OF assms(2,3)])
  show ?thesis
    by (simp add: sort_values_def getitem_def and_then_def days vals del: argsort.simps)
qed

lemma plot_accidents_by_day_run:
  assumes df: "df < length (frames w)"
    and day: "getitem (frames w ! df) day_col = Inr (map Str labels)"
    and vals: "getitem (frames w ! df) value_col = Inr (map Int64 ns)"
    and ne: "day_col \<noteq> value_col"
    and dist: "distinct order"
  shows "plot_accidents_by_day df day_col value_col title xlabel ylabel (Some order) w =
    (Inr PyNone,
     w\<lparr>shown := shown w @
       [Barplot
          [(day_col, Categorical order
             (map Some (filter (\<lambda>d. d \<in> set labels) order) @
              map (\<lambda>l. None) (filter (\<lambda>l. l \<notin> set order) (sort (remdups labels))))),
           (value_col, Plain (map (\<lambda>l. Int64 (wrap64 (sum_list (select_group labels ns l))))
             (filter (\<lambda>d. d \<in> set labels) order @
              filter (\<lambda>l. l \<notin> set order) (sort (remdups labels)))))]
          day_col value_col [''steelblue''] title xlabel ylabel]\<rparr>)"
proof -
  let ?G = "sort (remdups labels)"
  let ?total = "\<lambda>l. Int64 (wrap64 (sum_list (select_group labels ns l)))"
  have grouped: "groupby_agg sum_cells (frames w ! df) [day_col] value_col =
      Inr [(day_col, map Str ?G), (value_col, map ?total ?G)]"
    by (rule groupby_sum_by_day [OF day vals])
  have set_item: "setitem (plain [(day_col, map Str ?G), (value_col, map ?total ?G)]) day_col
        (Categorical order (map (mark order) ?G)) =
      [(day_col, Categorical order (map (mark order) ?G)), (value_col, Plain (map ?total ?G))]"
    using ne by (simp add: setitem_def plain_def)
  have sorted: "sort_values [(day_col, Categorical order (map (mark order) ?G)),
        (value_col, Plain (map ?total ?G))] day_col =
      Inr [(day_col, Categorical order
             (map Some (filter (\<lambda>d. d \<in> set labels) order) @
              map (\<lambda>l. None) (filter (\<lambda>l. l \<notin> set order) ?G))),
           (value_col, Plain (map ?total (filter (\<lambda>d. d \<in> set labels) order @
              filter (\<lambda>l. l \<notin> set order) ?G)))]"
    using sort_values_by_day [OF ne _ dist, of ?G ?total] by simp
  show ?thesis
    using df
    by (simp add: plot_accidents_by_day_def then_do_def frame_of_def lift_def grouped
        getitem_def pd_Categorical_labels [OF dist] set_item sorted plt_show_def ret_def
        del: argsort.simps)
qed


section \<open>The order of the days\<close>

text \<open>
  C8. Without \<open>day_order\<close>, \<open>plot_accidents_by_day\<close> runs as it does with the canonical list
  Lundi ... Dimanche. With a list of distinct labels, a frame whose day column holds strings
  and whose value column holds whole numbers (\<^verbatim>\<open>int64\<close>) gives one bar per day: first the
  days that are in \<open>day_order\<close>, in the order of \<open>day_order\<close>; then the days that are not,
  without a category. The bar of a day is the 64-bit sum of its rows.
\<close>

theorem day_order_decides_the_order:
  "plot_accidents_by_day df day_col value_col title xlabel ylabel None w =
     plot_accidents_by_day df day_col value_col title xlabel ylabel
       (Some [''Lundi'', ''Mardi'', ''Mercredi'', ''Jeudi'', ''Vendredi'', ''Samedi'',
              ''Dimanche'']) w \<and>
   (df < length (frames w) \<longrightarrow> getitem (frames w ! df) day_col = Inr (map Str labels) \<longrightarrow>
    getitem (frames w ! df) value_col = Inr (map Int64 ns) \<longrightarrow> (\<forall>n\<in>set ns. in_int64 n) \<longrightarrow>
    day_col \<noteq> value_col \<longrightarrow> distinct order \<longrightarrow>
    plot_accidents_by_day df day_col value_col title xlabel ylabel (Some order) w =
      (Inr PyNone,
       w\<lparr>shown := shown w @
         [Barplot
            [(day_col, Categorical order
               (map Some (filter (\<lambda>d. d \<in> set labels) order) @
                map (\<lambda>l. None) (filter (\<lambda>l. l \<notin> set order) (sort (remdups labels))))),
             (value_col, Plain
               (map (\<lambda>l. Int64 (wrap64 (sum_list (select_group labels ns l))))
                  (filter (\<lambda>d. d \<in> set labels) order @
                   filter (\<lambda>l. l \<notin> set order) (sort (remdups labels)))))]
            day_col value_col [''steelblue''] title xlabel ylabel]\<rparr>))"
proof (intro conjI impI)
  show "plot_accidents_by_day df day_col value_col title xlabel ylabel None w =
     plot_accidents_by_day df day_col value_col title xlabel ylabel
       (Some [''Lundi'', ''Mardi'', ''Mercredi'', ''Jeudi'', ''Vendredi'', ''Samedi'',
              ''Dimanche'']) w"
    by (simp add: plot_accidents_by_day_def)
qed (rule plot_accidents_by_day_run)

theorem day_order_decides_the_order_witness:
  "plot_accidents_by_day 0 ''Jour'' ''Accidents'' ''t'' ''x'' ''y'' None week_world =
     (Inr PyNone,
      week_world\<lparr>shown :=
        [Barplot
           [(''Jour'', Categorical
               [''Lundi'', ''Mardi'', ''Mercredi'', ''Jeudi'', ''Vendredi'', ''Samedi'',
                ''Dimanche'']
               [Some ''Lundi'', Some ''Mardi'', Some ''Mercredi'', Some ''Jeudi'',
                Some ''Vendredi'', Some ''Samedi'', Some ''Dimanche'']),
            (''Accidents'', Plain [Int64 5, Int64 5, Int64 5, Int64 5, Int64 5, Int64 10,
                Int64 20])]
           ''Jour'' ''Accidents'' [''steelblue''] ''t'' ''x'' ''y'']\<rparr>)"
proof -
  note inst = day_order_decides_the_order [where w = week_world and df = 0
      and day_col = "''Jour''" and value_col = "''Accidents''" and title = "''t''"
      and xlabel = "''x''" and ylabel = "''y''"
      and labels = "[''Samedi'', ''Lundi'', ''Dimanche'', ''Mardi'', ''Samedi'', ''Mercredi'',
                     ''Lundi'', ''Jeudi'', ''Vendredi'', ''Mercredi'']"
      and ns = "[4, 2, 20, 5, 6, 1, 3, 5, 5, 4]"
      and order = "[''Lundi'', ''Mardi'', ''Mercredi'', ''Jeudi'', ''Vendredi'', ''Samedi'',
                    ''Dimanche'']"]
  have pre: "0 < length (frames week_world)"
    "getitem (frames week_world ! 0) ''Jour'' =
       Inr (map Str [''Samedi'', ''Lundi'', ''Dimanche'', ''Mardi'', ''Samedi'', ''Mercredi'',
                     ''Lundi'', ''Jeudi'', ''Vendredi'', ''Mercredi''])"
    "getitem (frames week_world ! 0) ''Accidents'' =
       Inr (map Int64 [4, 2, 20, 5, 6, 1, 3, 5, 5, 4])"
    "\<forall>n\<in>set [4, 2, 20, 5, 6, 1, 3, 5, 5, 4]. in_int64 n"
    by (simp_all add: week_world_def getitem_def in_int64_def)
  have unlisted: "filter (\<lambda>l. l \<notin> set [''Lundi'', ''Mardi'', ''Mercredi'', ''Jeudi'', ''Vendredi'',
        ''Samedi'', ''Dimanche''])
      (sort (remdups [''Samedi'', ''Lundi'', ''Dimanche'', ''Mardi'', ''Samedi'', ''Mercredi'',
                     ''Lundi'', ''Jeudi'', ''Vendredi'', ''Mercredi''])) = []"
    by (simp add: filter_empty_conv)
  from inst pre show ?thesis
    by (simp add: unlisted select_group_def week_world_def wrap64_def)
qed


text \<open>
  C10. A day that occurs in the data and is not in \<open>day_order\<close> is no error: the call shows
  its chart. The rows of the chart are the days of the data that \<open>day_order\<close> lists, each
  under its category and in the order of \<open>day_order\<close>, followed by the days it does not
  list, each without a category (NaN) and with the 64-bit sum of its rows; the day in
  question is one of the latter.
\<close>

theorem unlisted_day_is_kept_last:
  assumes "df < length (frames w)"
    and "getitem (frames w ! df) day_col = Inr (map Str labels)"
    and "getitem (frames w ! df) value_col = Inr (map Int64 ns)"
    and "\<forall>n\<in>set ns. in_int64 n"
    and "day_col \<noteq> value_col"
    and "distinct order"
    and "l \<in> set labels" and "l \<notin> set order"
    and "listed = filter (\<lambda>d. d \<in> set labels) order"
    and "unlisted = filter (\<lambda>d. d \<notin> set order) (sort (remdups labels))"
  shows "plot_accidents_by_day df day_col value_col title xlabel ylabel (Some order) w =
       (Inr PyNone,
        w\<lparr>shown := shown w @
          [Barplot
             [(day_col, Categorical order (map Some listed @ map (\<lambda>d. None) unlisted)),
              (value_col, Plain
                (map (\<lambda>d. Int64 (wrap64 (sum_list (select_group labels ns d))))
                   (listed @ unlisted)))]
             day_col value_col [''steelblue''] title xlabel ylabel]\<rparr>) \<and>
     l \<in> set unlisted \<and> l \<notin> set listed \<and>
     (listed @ unlisted) ! (length listed + position unlisted l) = l \<and>
     (map Some listed @ map (\<lambda>d. None) unlisted) ! (length listed + position unlisted l) = None"
proof (intro conjI)
  show in_unlisted: "l \<in> set unlisted"
    using assms(7,8) unfolding assms(10) by simp
  show "l \<notin> set listed"
    using assms(8) unfolding assms(9) by simp
  show "(listed @ unlisted) ! (length listed + position unlisted l) = l"
    using in_unlisted by (simp add: nth_position)
  have "position unlisted l < length unlisted"
    using in_unlisted by (rule position_less)
  then show "(map Some listed @ map (\<lambda>d. None) unlisted) !
      (length listed + position unlisted l) = None"
    by (simp add: nth_append)
  show "plot_accidents_by_day df day_col value_col title xlabel ylabel (Some order) w =
       (Inr PyNone,
        w\<lparr>shown := shown w @
          [Barplot
             [(day_col, Categorical order (map Some listed @ map (\<lambda>d. None) unlisted)),
              (value_col, Plain
                (map (\<lambda>d. Int64 (wrap64 (sum_list (select_group labels ns d))))
                   (listed @ unlisted)))]
             day_col value_col [''steelblue''] title xlabel ylabel]\<rparr>)"
    unfolding assms(9,10)
    by (rule plot_accidents_by_day_run [OF assms(1-3) assms(5,6)])
qed

theorem unlisted_day_is_kept_last_witness:
  "plot_accidents_by_day 0 ''Jour'' ''Accidents'' ''t'' ''x'' ''y''
       (Some [''Samedi'', ''Lundi'']) week_world =
     (Inr PyNone,
      week_world\<lparr>shown :=
        [Barplot
           [(''Jour'', Categorical [''Samedi'', ''Lundi'']
               [Some ''Samedi'', Some ''Lundi'', None, None, None, None, None]),
            (''Accidents'', Plain [Int64 10, Int64 5, Int64 20, Int64 5, Int64 5, Int64 5,
                Int64 5])]
           ''Jour'' ''Accidents'' [''steelblue''] ''t'' ''x'' ''y'']\<rparr>) \<and>
   ([''Samedi'', ''Lundi''] @ [''Dimanche'', ''Jeudi'', ''Mardi'', ''Mercredi'', ''Vendredi'']) !
     (2 + position [''Dimanche'', ''Jeudi'', ''Mardi'', ''Mercredi'', ''Vendredi''] ''Dimanche'') =
     ''Dimanche''"
proof -
  let ?labels = "[''Samedi'', ''Lundi'', ''Dimanche'', ''Mardi'', ''Samedi'', ''Mercredi'',
                  ''Lundi'', ''Jeudi'', ''Vendredi'', ''Mercredi'']"
  let ?ns = "[4, 2, 20, 5, 6, 1, 3, 5, 5, 4] :: int list"
  let ?listed = "[''Samedi'', ''Lundi'']"
  let ?unlisted = "[''Dimanche'', ''Jeudi'', ''Mardi'', ''Mercredi'', ''Vendredi'']"
  have days: "sort (remdups ?labels) =
      [''Dimanche'', ''Jeudi'', ''Lundi'', ''Mardi'', ''Mercredi'', ''Samedi'', ''Vendredi'']"
    by code_simp
  have pre: "0 < length (frames week_world)"
    "getitem (frames week_world ! 0) ''Jour'' = Inr (map Str ?labels)"
    "getitem (frames week_world ! 0) ''Accidents'' = Inr (map Int64 ?ns)"
    "\<forall>n\<in>set ?ns. in_int64 n"
    "''Jour'' \<noteq> ''Accidents''"
    "distinct [''Samedi'', ''Lundi'']"
    "''Dimanche'' \<in> set ?labels" "''Dimanche'' \<notin> set [''Samedi'', ''Lundi'']"
    "?listed = filter (\<lambda>d. d \<in> set ?labels) [''Samedi'', ''Lundi'']"
    by (simp_all add: week_world_def getitem_def in_int64_def)
  have unl: "?unlisted = filter (\<lambda>d. d \<notin> set [''Samedi'', ''Lundi'']) (sort (remdups ?labels))"
    unfolding days by simp
  have sums: "map (\<lambda>d. Int64 (wrap64 (sum_list (select_group ?labels ?ns d))))
        (?listed @ ?unlisted) =
      [Int64 10, Int64 5, Int64 20, Int64 5, Int64 5, Int64 5, Int64 5]"
    by (simp add: select_group_def wrap64_def)
  from unlisted_day_is_kept_last [OF pre unl, of "''t''" "''x''" "''y''"]
  show ?thesis
    unfolding sums by (simp add: week_world_def)
qed


section \<open>Weekdays against weekends\<close>

lemma weekend_or_weekday_Str: "weekend_or_weekday wd (Str l) = Str (day_kind wd l)"
  by (auto simp: weekend_or_weekday_def day_kind_def)

lemma map_of_replace:
  "map_of (map (\<lambda>(n, old). if n = c then (n, col) else (n, old)) df) =
   (if c \<in> set (map fst df) then (map_of df)(c \<mapsto> col) else map_of df)"
  by (induction df) (auto simp: fun_eq_iff)

lemma map_of_setitem: "map_of (setitem df c col) = (map_of df)(c \<mapsto> col)"
proof (cases "c \<in> set (map fst df)")
  case True
  then show ?thesis by (simp add: setitem_def map_of_replace)
next
  case False
  then have "map_of df c = None" by (simp add: map_of_eq_None_iff)
  then have "map_of (df @ [(c, col)]) = (map_of df)(c \<mapsto> col)"
    by (auto simp: map_add_def fun_eq_iff split: option.splits)
  with False show ?thesis by (simp add: setitem_def)
qed

lemma getitem_setitem_same: "getitem (setitem df c col) c = Inr col"
  by (simp add: getitem_def map_of_setitem)

lemma getitem_setitem_other:
  "c' \<noteq> c \<Longrightarrow> getitem (setitem df c col) c' = getitem df c'"
  by (simp add: getitem_def map_of_setitem)

lemma row_keys_pair: "row_keys [map f xs, map g xs] = map (\<lambda>x. [f x, g x]) xs"
  by (induction xs) simp_all

lemma groupby_sum_by_day_and_kind:
  assumes day: "getitem df day_col = Inr (map Str labels)"
    and kind: "getitem df binary_col = Inr (map (\<lambda>l. Str (kind l)) labels)"
    and vals: "getitem df value_col = Inr (map Int64 ns)"
  shows "groupby_agg sum_cells df [day_col, binary_col] value_col =
    Inr [(day_col, map Str (sort (remdups labels))),
         (binary_col, map (\<lambda>l. Str (kind l)) (sort (remdups labels))),
         (value_col, map (\<lambda>l. Int64 (wrap64 (sum_list (select_group labels ns l))))
            (sort (remdups labels)))]"
proof -
  have "groupby_agg sum_cells df [day_col, binary_col] value_col =
    Inr (zip [day_col, binary_col]
           (map (\<lambda>j. map (\<lambda>l. [Str l, Str (kind l)] ! j) (sort (remdups labels)))
              [0..<length [day_col, binary_col]]) @
         [(value_col, map (\<lambda>l. Int64 (wrap64 (sum_list (select_group labels ns l))))
            (sort (remdups labels)))])"
  proof (rule groupby_agg_run
      [where key_cols = "[map Str labels, map (\<lambda>l. Str (kind l)) labels]"])
    show "collect (getitem df) [day_col, binary_col] =
        Inr [map Str labels, map (\<lambda>l. Str (kind l)) labels]"
      by (simp add: day kind and_then_def)
    show "row_keys [map Str labels, map (\<lambda>l. Str (kind l)) labels] =
        map (\<lambda>l. [Str l, Str (kind l)]) labels"
      by (rule row_keys_pair)
    show "embeds (\<lambda>l. [Str l, Str (kind l)])" by (rule embeds_pair)
    show "getitem df value_col = Inr (map Int64 ns)" by (rule vals)
    show "sum_cells (select_group labels (map Int64 ns) l) =
        Inr (Int64 (wrap64 (sum_list (select_group labels ns l))))" for l
      by (rule sum_cells_group)
  qed
  moreover have "[0..<length [day_col, binary_col]] = [0, Suc 0]"
    by (simp add: upt_rec)
  ultimately show ?thesis by simp
qed

lemma groupby_mean_by_kind:
  assumes kind: "getitem dg binary_col = Inr (map (\<lambda>l. Str (kind l)) G)"
    and vals: "getitem dg value_col = Inr (map (\<lambda>l. Int64 (day_total l)) G)"
  shows "groupby_agg mean_cells dg [binary_col] value_col =
    Inr [(binary_col, map Str (sort (remdups (map kind G)))),
         (value_col, map (\<lambda>k. Num (sum_list (map (\<lambda>d. real_of_int (day_total d))
                 (filter (\<lambda>d. kind d = k) G)) /
               real (length (filter (\<lambda>d. kind d = k) G))))
            (sort (remdups (map kind G))))]"
proof -
  let ?avg = "\<lambda>k. Num (sum_list (map (\<lambda>d. real_of_int (day_total d))
                 (filter (\<lambda>d. kind d = k) G)) /
               real (length (filter (\<lambda>d. kind d = k) G)))"
  have "groupby_agg mean_cells dg [binary_col] value_col =
    Inr (zip [binary_col]
           (map (\<lambda>j. map (\<lambda>k. [Str k] ! j) (sort (remdups (map kind G))))
              [0..<length [binary_col]]) @
         [(value_col, map ?avg (sort (remdups (map kind G))))])"
  proof (rule groupby_agg_run
      [where key_cols = "[map Str (map kind G)]" and vals = "map Int64 (map day_total G)"])
    show "collect (getitem dg) [binary_col] = Inr [map Str (map kind G)]"
      by (simp add: kind and_then_def comp_def)
    show "row_keys [map Str (map kind G)] = map (\<lambda>k. [Str k]) (map kind G)"
      by (simp add: comp_def)
    show "embeds (\<lambda>k. [Str k])" by (rule embeds_single)
    show "getitem dg value_col = Inr (map Int64 (map day_total G))"
      by (simp add: vals comp_def)
    show "mean_cells (select_group (map kind G) (map Int64 (map day_total G)) k) = Inr (?avg k)"
      if "k \<in> set (map kind G)" for k
    proof -
      from that have ne: "map day_total (filter (\<lambda>d. kind d = k) G) \<noteq> []"
        by (auto simp: filter_empty_conv)
      have "select_group (map kind G) (map Int64 (map day_total G)) k =
          map Int64 (map day_total (filter (\<lambda>d. kind d = k) G))"
        by (simp add: select_group_same comp_def)
      then show ?thesis
        using mean_cells_whole [OF ne] by (simp add: comp_def)
    qed
  qed
  then show ?thesis by simp
qed


lemma real_of_int_sum_list: "real_of_int (sum_list ns) = sum_list (map real_of_int ns)"
  by (induction ns) simp_all

lemma getitem_present: "getitem fr c = Inr col \<Longrightarrow> c \<in> set (map fst fr)"
  by (auto simp: getitem_def split: option.splits dest: map_of_SomeD intro: rev_image_eqI)

lemma loc_setitem_new:
  "c \<notin> set (map fst fr) \<Longrightarrow> loc_setitem fr c col = Inr (fr @ [(c, col)])"
proof -
  assume "c \<notin> set (map fst fr)"
  then have "map_of fr c = None" by (simp add: map_of_eq_None_iff)
  then show ?thesis by (simp add: loc_setitem_def)
qed

lemma setitem_new: "c \<notin> set (map fst fr) \<Longrightarrow> setitem fr c col = fr @ [(c, col)]"
  by (simp add: setitem_def)

lemma sort_remdups_set: "set xs = set ys \<Longrightarrow> sort (remdups xs) = sort (remdups ys)"
  by (rule sorted_distinct_set_unique) simp_all

lemma sum_list_distinct_set:
  fixes f :: "'a \<Rightarrow> real"
  assumes "distinct as" and "distinct bs" and "set as = set bs"
  shows "sum_list (map f as) = sum_list (map f bs)" and "length as = length bs"
proof -
  from assms show "sum_list (map f as) = sum_list (map f bs)"
    by (simp add: sum_list_distinct_conv_sum_set)
  from assms show "length as = length bs"
    by (metis distinct_card)
qed

lemma two_stage_average_sorted:
  "sum_list (map (\<lambda>d. sum_list (select_group labels xs d))
       (filter (\<lambda>d. kind d = k) (sort (remdups labels)))) /
     real (length (filter (\<lambda>d. kind d = k) (sort (remdups labels)))) =
   two_stage_average labels xs kind k"
proof -
  let ?as = "filter (\<lambda>d. kind d = k) (sort (remdups labels))"
  let ?bs = "filter (\<lambda>d. kind d = k) (remdups labels)"
  have d: "distinct ?as" "distinct ?bs" "set ?as = set ?bs" by auto
  show ?thesis
    unfolding two_stage_average_def Let_def length_map
    by (simp only: sum_list_distinct_set [OF d])
qed

lemma plot_avg_two_stage:
  assumes df: "df < length (frames w)"
    and day: "getitem (frames w ! df) day_col = Inr (map Str labels)"
    and vals: "getitem (frames w ! df) value_col = Inr (map Int64 ns)"
    and new: "binary_col \<notin> set (map fst (frames w ! df))"
    and ne: "day_col \<noteq> value_col"
    and bound: "\<forall>d\<in>set labels. in_int64 (sum_list (select_group labels ns d))"
    and wd: "wd = (case weekend_days of None \<Rightarrow> [''Samedi'', ''Dimanche''] | Some ds \<Rightarrow> ds)"
  shows "plot_avg_accidents_weekday_vs_weekend df day_col value_col binary_col weekend_days
       colors title xlabel ylabel w =
    (Inr PyNone,
     w\<lparr>frames := frames w @
         [frames w ! df @ [(binary_col, map (\<lambda>l. Str (day_kind wd l)) labels)]],
       shown := shown w @
         [Barplot
            [(binary_col, Plain (map Str (sort (remdups (map (day_kind wd) labels))))),
             (''Average_Accidents'', Plain
                (map (\<lambda>k. Num (two_stage_average labels (map real_of_int ns) (day_kind wd) k))
                   (sort (remdups (map (day_kind wd) labels)))))]
            binary_col ''Average_Accidents''
            (case colors of None \<Rightarrow> [''#E0897E'', ''#63B7C3''] | Some cs \<Rightarrow> cs)
            title xlabel ylabel]\<rparr>)"
proof -
  let ?G = "sort (remdups labels)"
  let ?kind = "day_kind wd"
  let ?xs = "map real_of_int ns"
  let ?total = "\<lambda>l. wrap64 (sum_list (select_group labels ns l))"
  let ?fr = "frames w ! df @ [(binary_col, map (\<lambda>l. Str (?kind l)) labels)]"
  let ?K = "sort (remdups (map ?kind labels))"
  let ?dg = "[(day_col, map Str ?G), (binary_col, map (\<lambda>l. Str (?kind l)) ?G),
              (value_col, map (\<lambda>l. Int64 (?total l)) ?G)]"
  have names: "binary_col \<noteq> day_col" "binary_col \<noteq> value_col"
    using new getitem_present [OF day] getitem_present [OF vals] by auto
  have kinds: "map (weekend_or_weekday wd \<circ> Str) labels = map (\<lambda>l. Str (?kind l)) labels"
    by (simp add: weekend_or_weekday_Str comp_def)
  have fr: "?fr = setitem (frames w ! df) binary_col (map (\<lambda>l. Str (?kind l)) labels)"
    by (simp only: setitem_new [OF new])
  have written: "loc_setitem (frames w ! df) binary_col (map (\<lambda>l. Str (?kind l)) labels) =
      Inr ?fr"
    by (rule loc_setitem_new [OF new])
  have fr_day: "getitem ?fr day_col = Inr (map Str labels)"
    unfolding fr using names day by (simp add: getitem_setitem_other)
  have fr_kind: "getitem ?fr binary_col = Inr (map (\<lambda>l. Str (?kind l)) labels)"
    unfolding fr by (rule getitem_setitem_same)
  have fr_vals: "getitem ?fr value_col = Inr (map Int64 ns)"
    unfolding fr using names vals by (simp add: getitem_setitem_other)
  have stage1: "groupby_agg sum_cells ?fr [day_col, binary_col] value_col = Inr ?dg"
    by (rule groupby_sum_by_day_and_kind [OF fr_day fr_kind fr_vals])
  have dg_kind: "getitem ?dg binary_col = Inr (map (\<lambda>l. Str (?kind l)) ?G)"
    using names by (simp add: getitem_def)
  have dg_vals: "getitem ?dg value_col = Inr (map (\<lambda>l. Int64 (?total l)) ?G)"
    using names ne by (simp add: getitem_def)
  have K: "sort (remdups (map ?kind ?G)) = ?K"
    by (rule sort_remdups_set) simp
  have exact: "real_of_int (?total d) = sum_list (select_group labels ?xs d)"
    if "d \<in> set labels" for d
  proof -
    from that bound have "in_int64 (sum_list (select_group labels ns d))" by blast
    then have "?total d = sum_list (select_group labels ns d)" by (rule wrap64_in_range)
    then show ?thesis
      by (simp only: select_group_map_values real_of_int_sum_list)
  qed
  have sums: "map (\<lambda>d. real_of_int (?total d)) (filter (\<lambda>d. ?kind d = k) ?G) =
      map (\<lambda>d. sum_list (select_group labels ?xs d)) (filter (\<lambda>d. ?kind d = k) ?G)" for k
    by (rule map_cong [OF refl]) (simp add: exact)
  have stage2: "groupby_agg mean_cells ?dg [binary_col] value_col =
      Inr [(binary_col, map Str ?K),
           (value_col, map (\<lambda>k. Num (two_stage_average labels ?xs ?kind k)) ?K)]"
    using groupby_mean_by_kind [OF dg_kind dg_vals]
    by (simp only: K sums two_stage_average_sorted)
  have renamed: "plain (rename [(binary_col, map Str ?K),
        (value_col, map (\<lambda>k. Num (two_stage_average labels ?xs ?kind k)) ?K)]
        value_col ''Average_Accidents'') =
      [(binary_col, Plain (map Str ?K)),
       (''Average_Accidents'', Plain (map (\<lambda>k. Num (two_stage_average labels ?xs ?kind k)) ?K))]"
    using names by (simp add: rename_def plain_def)
  show ?thesis
    using df
    by (simp add: plot_avg_run day wd [symmetric] kinds written stage1 stage2 renamed Let_def
        del: sort_key_simps remdups.simps)
qed


lemma flat_mean_differs:
  "flat_average [''Samedi'', ''Lundi'', ''Dimanche'', ''Mardi'', ''Samedi'', ''Mercredi'',
       ''Lundi'', ''Jeudi'', ''Vendredi'', ''Mercredi''] [4, 2, 20, 5, 6, 1, 3, 5, 5, 4]
     (day_kind [''Samedi'', ''Dimanche'']) ''Weekend'' = 10 \<and>
   two_stage_average [''Samedi'', ''Lundi'', ''Dimanche'', ''Mardi'', ''Samedi'', ''Mercredi'',
       ''Lundi'', ''Jeudi'', ''Vendredi'', ''Mercredi''] [4, 2, 20, 5, 6, 1, 3, 5, 5, 4]
     (day_kind [''Samedi'', ''Dimanche'']) ''Weekend'' = 15"
  by (simp add: flat_average_def two_stage_average_def select_group_def day_kind_def)

text \<open>
  C5. Take a frame whose day column holds strings and whose value column holds whole numbers
  (\<^verbatim>\<open>int64\<close>), with \<open>binary_col\<close> the name of a column the frame does not have yet, and
  let every per-day sum fit in 64 bits. Then \<open>plot_avg_accidents_weekday_vs_weekend\<close> shows
  one bar per label, Weekday before Weekend, whose height is \<open>two_stage_average\<close>: the value
  column is summed per exact day, and these per-day sums are averaged over the days of the
  label. With per-day sums Samedi 10, Dimanche 20 and 5 for the five other days the bars are
  5 and 15; the mean over the rows of the weekend would be 10.
\<close>

theorem weekday_weekend_two_stage:
  assumes "df < length (frames w)"
    and "getitem (frames w ! df) day_col = Inr (map Str labels)"
    and "getitem (frames w ! df) value_col = Inr (map Int64 ns)"
    and "\<forall>n\<in>set ns. in_int64 n"
    and "binary_col \<notin> set (map fst (frames w ! df))"
    and "day_col \<noteq> value_col"
    and "\<forall>d\<in>set labels. in_int64 (sum_list (select_group labels ns d))"
    and "wd = (case weekend_days of None \<Rightarrow> [''Samedi'', ''Dimanche''] | Some ds \<Rightarrow> ds)"
  shows "plot_avg_accidents_weekday_vs_weekend df day_col value_col binary_col weekend_days
       colors title xlabel ylabel w =
    (Inr PyNone,
     w\<lparr>frames := frames w @
         [frames w ! df @ [(binary_col, map (\<lambda>l. Str (day_kind wd l)) labels)]],
       shown := shown w @
         [Barplot
            [(binary_col, Plain (map Str (sort (remdups (map (day_kind wd) labels))))),
             (''Average_Accidents'', Plain
                (map (\<lambda>k. Num (two_stage_average labels (map real_of_int ns) (day_kind wd) k))
                   (sort (remdups (map (day_kind wd) labels)))))]
            binary_col ''Average_Accidents''
            (case colors of None \<Rightarrow> [''#E0897E'', ''#63B7C3''] | Some cs \<Rightarrow> cs)
            title xlabel ylabel]\<rparr>)"
  by (rule plot_avg_two_stage [OF assms(1-3) assms(5-8)])

theorem weekday_weekend_two_stage_witness:
  "fst (plot_avg_accidents_weekday_vs_weekend 0 ''Jour'' ''Accidents'' ''Weekend'' None None
     ''t'' ''x'' ''y'' week_world) = Inr PyNone \<and>
   shown (snd (plot_avg_accidents_weekday_vs_weekend 0 ''Jour'' ''Accidents'' ''Weekend'' None
     None ''t'' ''x'' ''y'' week_world)) =
     [Barplot
        [(''Weekend'', Plain [Str ''Weekday'', Str ''Weekend'']),
         (''Average_Accidents'', Plain [Num 5, Num 15])]
        ''Weekend'' ''Average_Accidents'' [''#E0897E'', ''#63B7C3''] ''t'' ''x'' ''y'']"
proof -
  let ?labels = "[''Samedi'', ''Lundi'', ''Dimanche'', ''Mardi'', ''Samedi'', ''Mercredi'',
                  ''Lundi'', ''Jeudi'', ''Vendredi'', ''Mercredi'']"
  let ?ns = "[4, 2, 20, 5, 6, 1, 3, 5, 5, 4] :: int list"
  have pre: "0 < length (frames week_world)"
    "getitem (frames week_world ! 0) ''Jour'' = Inr (map Str ?labels)"
    "getitem (frames week_world ! 0) ''Accidents'' = Inr (map Int64 ?ns)"
    "\<forall>n\<in>set ?ns. in_int64 n"
    "''Weekend'' \<notin> set (map fst (frames week_world ! 0))"
    "''Jour'' \<noteq> ''Accidents''"
    by (simp_all add: week_world_def getitem_def in_int64_def)
  have bound: "\<forall>d\<in>set ?labels. in_int64 (sum_list (select_group ?labels ?ns d))"
    by (simp add: select_group_def in_int64_def)
  have "plot_avg_accidents_weekday_vs_weekend 0 ''Jour'' ''Accidents'' ''Weekend'' None None
       ''t'' ''x'' ''y'' week_world = (Inr PyNone,
     week_world\<lparr>frames := frames week_world @
         [frames week_world ! 0 @
            [(''Weekend'', map (\<lambda>l. Str (day_kind [''Samedi'', ''Dimanche''] l)) ?labels)]],
       shown := shown week_world @
         [Barplot
            [(''Weekend'', Plain (map Str (sort (remdups (map (day_kind [''Samedi'', ''Dimanche''])
                ?labels))))),
             (''Average_Accidents'', Plain
                (map (\<lambda>k. Num (two_stage_average ?labels (map real_of_int ?ns)
                     (day_kind [''Samedi'', ''Dimanche'']) k))
                   (sort (remdups (map (day_kind [''Samedi'', ''Dimanche'']) ?labels)))))]
            ''Weekend'' ''Average_Accidents''
            (case None of None \<Rightarrow> [''#E0897E'', ''#63B7C3''] | Some cs \<Rightarrow> cs)
            ''t'' ''x'' ''y'']\<rparr>)"
    by (rule weekday_weekend_two_stage [OF pre bound]) simp
  then show ?thesis
    by (simp add: two_stage_average_def select_group_def day_kind_def week_world_def)
qed

end
